theory Spec2Isabelle
  imports Main "HOL-Library.Word"
begin

unbundle bit_operations_syntax

section \<open>Python values shared by both modules\<close>

text \<open>
  In the poller, texts are Python \<open>str\<close> values over the ASCII alphabet, written as
  HOL strings. Exceptions are values; the string an exception carries names what raised
  it (an attribute, a key, or the message supplied by a remote service).
\<close>

datatype exn =
    HttpError string
  | SyntaxError string
  | AttributeError string
  | TypeError string
  | ValueError string
  | KeyError string
  | OverflowError string
  | OtherError string

text \<open>The outcome of a call into a library or a remote service.\<close>

datatype 'a api_result = Returns 'a | Raises exn

text \<open>A line written by \<open>print\<close>; \<open>Print_exn p e\<close> is the line \<open>f"{p}{e}"\<close>.\<close>

datatype log_line = Print string | Print_exn string exn

text \<open>\<open>str(n)\<close> for an integer.\<close>

fun str_nat :: "nat \<Rightarrow> string" where
  "str_nat n = (if n < 10 then [''0123456789'' ! n] else str_nat (n div 10) @ [''0123456789'' ! (n mod 10)])"

declare str_nat.simps [simp del]

definition str_int :: "int \<Rightarrow> string" where
  "str_int i = (if i < 0 then CHR ''-'' # str_nat (nat (- i)) else str_nat (nat i))"

section \<open>drive\_service.py: the content hash\<close>

text \<open>
  \<open>compute_content_hash\<close> is \<open>hashlib.md5(content.encode("utf-8")).hexdigest()\<close>.
  MD5 (RFC 1321) is written out on 32-bit words: padding to a multiple of 64 bytes,
  little-endian words, 64 rounds per block, and the digest in lower-case hexadecimal.
\<close>

type_synonym u32 = "32 word"

definition md5_shifts :: "nat list" where
  "md5_shifts = [7,12,17,22,7,12,17,22,7,12,17,22,7,12,17,22,
                 5,9,14,20,5,9,14,20,5,9,14,20,5,9,14,20,
                 4,11,16,23,4,11,16,23,4,11,16,23,4,11,16,23,
                 6,10,15,21,6,10,15,21,6,10,15,21,6,10,15,21]"

definition md5_K :: "u32 list" where
  "md5_K = [0xd76aa478, 0xe8c7b756, 0x242070db, 0xc1bdceee, 0xf57c0faf, 0x4787c62a, 0xa8304613, 0xfd469501,
            0x698098d8, 0x8b44f7af, 0xffff5bb1, 0x895cd7be, 0x6b901122, 0xfd987193, 0xa679438e, 0x49b40821,
            0xf61e2562, 0xc040b340, 0x265e5a51, 0xe9b6c7aa, 0xd62f105d, 0x02441453, 0xd8a1e681, 0xe7d3fbc8,
            0x21e1cde6, 0xc33707d6, 0xf4d50d87, 0x455a14ed, 0xa9e3e905, 0xfcefa3f8, 0x676f02d9, 0x8d2a4c8a,
            0xfffa3942, 0x8771f681, 0x6d9d6122, 0xfde5380c, 0xa4beea44, 0x4bdecfa9, 0xf6bb4b60, 0xbebfbc70,
            0x289b7ec6, 0xeaa127fa, 0xd4ef3085, 0x04881d05, 0xd9d4d039, 0xe6db99e5, 0x1fa27cf8, 0xc4ac5665,
            0xf4292244, 0x432aff97, 0xab9423a7, 0xfc93a039, 0x655b59c3, 0x8f0ccc92, 0xffeff47d, 0x85845dd1,
            0x6fa87e4f, 0xfe2ce6e0, 0xa3014314, 0x4e0811a1, 0xf7537e82, 0xbd3af235, 0x2ad7d2bb, 0xeb86d391]"

definition md5_pad :: "8 word list \<Rightarrow> 8 word list" where
  "md5_pad bs = bs @ [0x80] @ replicate ((119 - length bs mod 64) mod 64) 0
      @ map (\<lambda>i. ucast (drop_bit (8 * i) (word_of_nat (8 * length bs) :: 64 word))) [0..<8]"

fun le_words :: "8 word list \<Rightarrow> u32 list" where
  "le_words (b0 # b1 # b2 # b3 # bs) =
     (ucast b0 OR push_bit 8 (ucast b1) OR push_bit 16 (ucast b2) OR push_bit 24 (ucast b3)) # le_words bs"
| "le_words _ = []"

fun md5_round :: "u32 list \<Rightarrow> u32 \<times> u32 \<times> u32 \<times> u32 \<Rightarrow> nat \<Rightarrow> u32 \<times> u32 \<times> u32 \<times> u32" where
  "md5_round M (a, b, c, d) i =
     (let (f, g) =
        (if i < 16 then ((b AND c) OR (NOT b AND d), i)
         else if i < 32 then ((d AND b) OR (NOT d AND c), (5 * i + 1) mod 16)
         else if i < 48 then (b XOR c XOR d, (3 * i + 5) mod 16)
         else (c XOR (b OR NOT d), (7 * i) mod 16));
          f' = f + a + md5_K ! i + M ! g
      in (d, b + word_rotl (md5_shifts ! i) f', b, c))"

definition md5_block :: "u32 \<times> u32 \<times> u32 \<times> u32 \<Rightarrow> u32 list \<Rightarrow> u32 \<times> u32 \<times> u32 \<times> u32" where
  "md5_block st M =
     (case st of (a0, b0, c0, d0) \<Rightarrow>
        (case foldl (md5_round M) st [0..<64] of (a, b, c, d) \<Rightarrow> (a0 + a, b0 + b, c0 + c, d0 + d)))"

fun md5_blocks :: "u32 \<times> u32 \<times> u32 \<times> u32 \<Rightarrow> u32 list \<Rightarrow> u32 \<times> u32 \<times> u32 \<times> u32" where
  "md5_blocks st ws =
     (if length ws < 16 then st else md5_blocks (md5_block st (take 16 ws)) (drop 16 ws))"

declare md5_blocks.simps [simp del]

definition hex_digit :: "nat \<Rightarrow> char" where
  "hex_digit n = ''0123456789abcdef'' ! (n mod 16)"

definition hex_byte :: "8 word \<Rightarrow> string" where
  "hex_byte b = [hex_digit (unat b div 16), hex_digit (unat b mod 16)]"

definition word_bytes :: "u32 \<Rightarrow> 8 word list" where
  "word_bytes w = map (\<lambda>i. ucast (drop_bit (8 * i) w)) [0..<4]"

definition hexdigest :: "u32 \<times> u32 \<times> u32 \<times> u32 \<Rightarrow> string" where
  "hexdigest st = (case st of (a, b, c, d) \<Rightarrow>
     concat (map hex_byte (concat (map word_bytes [a, b, c, d]))))"

definition compute_content_hash :: "string \<Rightarrow> string" where
  "compute_content_hash content_text =
     hexdigest (md5_blocks (0x67452301, 0xefcdab89, 0x98badcfe, 0x10325476)
                  (le_words (md5_pad (map of_char content_text))))"

section \<open>drive\_service.py: the document poller\<close>

subsection \<open>Data\<close>

text \<open>The fields of a Drive file that \<open>get_file_metadata\<close> asks for and the poller reads.\<close>

record metadata =
  name :: string
  modifiedTime :: string
  webViewLink :: "string option"

text \<open>
  A row of the table of watched documents, with the columns that
  \<open>db.create_drive_document\<close> is given.
\<close>

record drive_document =
  file_id :: string
  client_id :: string
  file_name :: string
  content_hash :: string
  last_modified :: string
  content :: string

text \<open>A streamed chunk of a Backboard reply: its \<open>type\<close> and, when present, its \<open>content\<close>.\<close>

datatype chunk = Chunk string "string option"

text \<open>
  What lies outside the poller during one cycle: the Drive API, the \<open>clients\<close> and
  \<open>assistants\<close> tables of db.py, the Fernet decryption of encryption.py, and the
  Backboard client. \<open>assistants\<close> holds rows \<open>(assistant_id, client_id)\<close>.
\<close>

record world =
  files_get :: "string \<Rightarrow> metadata api_result"
  files_export :: "string \<Rightarrow> string api_result"
  clients :: "string \<rightharpoonup> string"
  assistants :: "(string \<times> string) list"
  fernet_decrypt :: "string \<Rightarrow> string api_result"
  create_thread :: "string \<Rightarrow> string \<Rightarrow> string api_result"
  add_message :: "string \<Rightarrow> string \<Rightarrow> string \<Rightarrow> chunk list api_result"

text \<open>The calls the poller makes to the Backboard client and to the document table, in order.\<close>

datatype effect =
    Create_thread string string
  | Add_message string string string
  | Update_drive_document string string string
  | Create_drive_document drive_document
  | Sleep int

text \<open>
  The state the poller changes: the table of watched documents, the trace of the calls
  made so far, and the lines printed so far.
\<close>

record poller_state =
  drive_documents :: "string \<rightharpoonup> drive_document"
  effects :: "effect list"
  printed :: "log_line list"

definition print :: "log_line list \<Rightarrow> poller_state \<Rightarrow> poller_state" where
  "print ls st = st\<lparr>printed := printed st @ ls\<rparr>"

definition record_effect :: "effect \<Rightarrow> poller_state \<Rightarrow> poller_state" where
  "record_effect e st = st\<lparr>effects := effects st @ [e]\<rparr>"

subsection \<open>The document table\<close>

text \<open>
  Modelled from the spec: \<open>db.lookup_drive_document\<close>, \<open>db.update_drive_document\<close> and
  \<open>db.create_drive_document\<close> are called by drive\_service.py but db.py does not define
  them. The spec's document store is a table keyed by the file id with
  \<open>lookup(id) -> WatchedDocument | absent\<close>, \<open>insert(record)\<close> and an update of
  the hash and the content of the row. The update takes the three arguments the poller
  passes: the id, the hash and the content.
\<close>

definition lookup_drive_document :: "poller_state \<Rightarrow> string \<Rightarrow> drive_document option" where
  "lookup_drive_document st fid = drive_documents st fid"

definition update_drive_document :: "string \<Rightarrow> string \<Rightarrow> string \<Rightarrow> poller_state \<Rightarrow> poller_state" where
  "update_drive_document fid h c st =
     record_effect (Update_drive_document fid h c)
       (case drive_documents st fid of
          None \<Rightarrow> st
        | Some d \<Rightarrow> st\<lparr>drive_documents := (drive_documents st)(fid \<mapsto> d\<lparr>content_hash := h, content := c\<rparr>)\<rparr>)"

definition create_drive_document :: "drive_document \<Rightarrow> poller_state \<Rightarrow> poller_state" where
  "create_drive_document d st =
     record_effect (Create_drive_document d)
       (st\<lparr>drive_documents := (drive_documents st)(file_id d \<mapsto> d)\<rparr>)"

text \<open>\<open>db.lookup_client\<close> and \<open>db.lookup_assistant\<close> (the first row of the client).\<close>

definition lookup_client :: "world \<Rightarrow> string \<Rightarrow> string option" where
  "lookup_client w cid = clients w cid"

definition lookup_assistant :: "world \<Rightarrow> string \<Rightarrow> string option" where
  "lookup_assistant w cid = map_option fst (find (\<lambda>row. snd row = cid) (assistants w))"

subsection \<open>Fetching\<close>

text \<open>
  \<open>get_file_metadata\<close> and \<open>get_document_content\<close> catch \<open>HttpError\<close> only: they
  print and return \<open>None\<close>. Any other exception leaves them.
\<close>

definition get_file_metadata :: "world \<Rightarrow> string \<Rightarrow> exn + (metadata option \<times> log_line list)" where
  "get_file_metadata w fid =
     (case files_get w fid of
        Returns m \<Rightarrow> Inr (Some m, [])
      | Raises (HttpError msg) \<Rightarrow>
          Inr (None, [Print_exn (''Error fetching metadata for '' @ fid @ '': '') (HttpError msg)])
      | Raises e \<Rightarrow> Inl e)"

definition get_document_content :: "world \<Rightarrow> string \<Rightarrow> exn + (string option \<times> log_line list)" where
  "get_document_content w fid =
     (case files_export w fid of
        Returns c \<Rightarrow> Inr (Some c, [])
      | Raises (HttpError msg) \<Rightarrow>
          Inr (None, [Print_exn (''Error fetching document '' @ fid @ '': '') (HttpError msg)])
      | Raises e \<Rightarrow> Inl e)"

text \<open>Python's \<open>not content\<close> for an optional string: true of \<open>None\<close> and of \<open>""\<close>.\<close>

definition not_content :: "string option \<Rightarrow> bool" where
  "not_content c = (case c of None \<Rightarrow> True | Some s \<Rightarrow> s = [])"

subsection \<open>Change detection\<close>

datatype change = New | Changed | Unchanged

text \<open>
  Lines 164 to 177 of \<open>process_document\<close>: the hash of the fetched content is compared
  with the stored row, when there is one.
\<close>

definition classify :: "drive_document option \<Rightarrow> string \<Rightarrow> change" where
  "classify existing_doc new_content =
     (case existing_doc of
        None \<Rightarrow> New
      | Some d \<Rightarrow> if content_hash d = compute_content_hash new_content then Unchanged else Changed)"


subsection \<open>Forwarding one document\<close>

text \<open>The text sent to Backboard: the f-string of lines 203 to 212.\<close>

definition formatted_content :: "metadata \<Rightarrow> string \<Rightarrow> string" where
  "formatted_content md content_text =
     [CHR 0x0A] @ ''Meeting Notes from: '' @ name md @ [CHR 0x0A]
     @ ''Last Modified: '' @ modifiedTime md @ [CHR 0x0A]
     @ ''Link: '' @ (case webViewLink md of Some l \<Rightarrow> l | None \<Rightarrow> ''N/A'') @ [CHR 0x0A]
     @ [CHR 0x0A] @ ''Content:'' @ [CHR 0x0A] @ content_text @ [CHR 0x0A] @ [CHR 0x0A]
     @ ''Please remember this information for future queries about onboarding, meetings, and project context.''
     @ [CHR 0x0A]"

text \<open>
  The loop over the streamed chunks: the content of every \<open>content_streaming\<close> chunk is
  kept; \<open>chunk["content"]\<close> raises \<open>KeyError\<close> when the chunk has none.
\<close>

fun collect_output :: "chunk list \<Rightarrow> exn + string" where
  "collect_output [] = Inr []"
| "collect_output (Chunk ty c # cs) =
     (if ty = ''content_streaming'' then
        (case c of
           None \<Rightarrow> Inl (KeyError ''content'')
         | Some s \<Rightarrow> (case collect_output cs of Inl e \<Rightarrow> Inl e | Inr r \<Rightarrow> Inr (s @ r)))
      else collect_output cs)"

text \<open>
  The body of the \<open>try\<close> of \<open>process_document\<close> (lines 181 to 239). The result is the
  state reached and, when the body raised, the exception. A missing client or assistant
  prints and returns.
\<close>

definition send_to_backboard ::
  "world \<Rightarrow> string \<Rightarrow> string \<Rightarrow> metadata \<Rightarrow> string \<Rightarrow> string \<Rightarrow> drive_document option
     \<Rightarrow> poller_state \<Rightarrow> poller_state \<times> exn option" where
  "send_to_backboard w fid cid md content_text hash existing_doc st =
     (case lookup_client w cid of
        None \<Rightarrow> (print [Print (''Client '' @ cid @ '' not found'')] st, None)
      | Some api_key \<Rightarrow>
     (case fernet_decrypt w api_key of
        Raises e \<Rightarrow> (st, Some e)
      | Returns decrypted_api_key \<Rightarrow>
     (case lookup_assistant w cid of
        None \<Rightarrow> (print [Print (''No assistant found for client '' @ cid)] st, None)
      | Some assistant_id \<Rightarrow>
     (let st1 = record_effect (Create_thread decrypted_api_key assistant_id) st in
      case create_thread w decrypted_api_key assistant_id of
        Raises e \<Rightarrow> (st1, Some e)
      | Returns thread_id \<Rightarrow>
     (let text_sent = formatted_content md content_text;
          st2 = record_effect (Add_message decrypted_api_key thread_id text_sent) st1 in
      case add_message w decrypted_api_key thread_id text_sent of
        Raises e \<Rightarrow> (st2, Some e)
      | Returns chunks \<Rightarrow>
     (case collect_output chunks of
        Inl e \<Rightarrow> (st2, Some e)
      | Inr response \<Rightarrow>
     (let st3 = print [Print (''Successfully sent to Backboard: '' @ name md)] st2 in
      case existing_doc of
        Some d \<Rightarrow> (update_drive_document fid hash content_text st3, None)
      | None \<Rightarrow>
          (create_drive_document
             \<lparr>file_id = fid, client_id = cid, file_name = name md, content_hash = hash,
              last_modified = modifiedTime md, content = content_text\<rparr> st3, None))))))))"

subsection \<open>Processing one document, and one cycle\<close>

text \<open>
  \<open>process_document\<close>. An exception of the \<open>try\<close> body is caught and printed; an
  exception of the two fetches other than \<open>HttpError\<close> leaves the function.
\<close>

definition process_document :: "world \<Rightarrow> string \<Rightarrow> string \<Rightarrow> poller_state \<Rightarrow> poller_state \<times> exn option" where
  "process_document w fid cid st =
     (case get_file_metadata w fid of
        Inl e \<Rightarrow> (st, Some e)
      | Inr (None, ls) \<Rightarrow> (print (ls @ [Print (''Failed to get metadata for file '' @ fid)]) st, None)
      | Inr (Some md, ls) \<Rightarrow>
     (case get_document_content w fid of
        Inl e \<Rightarrow> (print ls st, Some e)
      | Inr (c, ls') \<Rightarrow>
        if not_content c
        then (print (ls @ ls' @ [Print (''Failed to extract content from file '' @ fid)]) st, None)
        else
     (let content_text = the c;
          hash = compute_content_hash content_text;
          existing_doc = lookup_drive_document st fid
      in case classify existing_doc content_text of
           Unchanged \<Rightarrow> (print [Print (''No changes detected in '' @ name md)] st, None)
         | verdict \<Rightarrow>
     (let st1 = print [Print ((if verdict = Changed then ''Changes detected in ''
                               else ''Processing new document: '') @ name md)] st
      in case send_to_backboard w fid cid md content_text hash existing_doc st1 of
           (st2, None) \<Rightarrow> (st2, None)
         | (st2, Some e) \<Rightarrow> (print [Print_exn ''Error sending to Backboard: '' e] st2, None)))))"

text \<open>The \<open>for\<close> loop of \<open>poll_documents\<close>: an exception that leaves a document ends it.\<close>

fun poll_cycle :: "world \<Rightarrow> string list \<Rightarrow> string \<Rightarrow> poller_state \<Rightarrow> poller_state \<times> exn option" where
  "poll_cycle w [] cid st = (st, None)"
| "poll_cycle w (fid # fids) cid st =
     (case process_document w fid cid st of
        (st', None) \<Rightarrow> poll_cycle w fids cid st'
      | (st', Some e) \<Rightarrow> (st', Some e))"

text \<open>
  One pass of the \<open>while True\<close> loop: the cycle, then the sleep, also after an exception.
  \<open>poll_documents\<close> announces itself and repeats the pass; the world may differ from
  pass to pass, and the loop itself has no exit (an interrupt apart), so the model runs a
  given number of passes.
\<close>

definition poll_pass :: "world \<Rightarrow> string list \<Rightarrow> string \<Rightarrow> int \<Rightarrow> poller_state \<Rightarrow> poller_state" where
  "poll_pass w fids cid interval st =
     (case poll_cycle w fids cid st of
        (st', None) \<Rightarrow>
          record_effect (Sleep interval)
            (print [Print (''Waiting '' @ str_int interval @ '' seconds before next poll...'')] st')
      | (st', Some e) \<Rightarrow>
          record_effect (Sleep interval) (print [Print_exn ''Error during polling: '' e] st'))"

fun poll_loop :: "nat \<Rightarrow> (nat \<Rightarrow> world) \<Rightarrow> string list \<Rightarrow> string \<Rightarrow> int \<Rightarrow> poller_state \<Rightarrow> poller_state" where
  "poll_loop 0 ws fids cid interval st = st"
| "poll_loop (Suc n) ws fids cid interval st =
     poll_loop n (\<lambda>k. ws (Suc k)) fids cid interval (poll_pass (ws 0) fids cid interval st)"

definition poll_documents ::
  "nat \<Rightarrow> (nat \<Rightarrow> world) \<Rightarrow> string list \<Rightarrow> string \<Rightarrow> int \<Rightarrow> poller_state \<Rightarrow> poller_state" where
  "poll_documents passes ws fids cid interval st =
     poll_loop passes ws fids cid interval
       (print [Print (''Starting Drive polling for '' @ str_nat (length fids)
                      @ '' documents (interval: '' @ str_int interval @ ''s)'')] st)"

subsection \<open>Registration\<close>

text \<open>
  \<open>register_document_for_monitoring\<close>: a file whose metadata cannot be fetched raises
  \<open>ValueError\<close>; a file without a row gets one with an empty hash and empty content.
\<close>

definition register_document_for_monitoring ::
  "world \<Rightarrow> string \<Rightarrow> string \<Rightarrow> poller_state \<Rightarrow> poller_state \<times> exn option" where
  "register_document_for_monitoring w fid cid st =
     (case get_file_metadata w fid of
        Inl e \<Rightarrow> (st, Some e)
      | Inr (None, ls) \<Rightarrow> (print ls st, Some (ValueError (''Cannot access file '' @ fid)))
      | Inr (Some md, ls) \<Rightarrow>
          (case lookup_drive_document st fid of
             None \<Rightarrow>
               (print [Print (''Registered document for monitoring: '' @ name md)]
                  (create_drive_document
                     \<lparr>file_id = fid, client_id = cid, file_name = name md, content_hash = [],
                      last_modified = modifiedTime md, content = []\<rparr> st), None)
           | Some d \<Rightarrow> (print [Print (''Document already registered: '' @ name md)] st, None)))"

subsection \<open>Observing a run of the poller\<close>

text \<open>
  The number of messages submitted to Backboard and the number of writes to the document
  table in a trace, and whether the forward of a document goes through: the client and
  the assistant are registered, the key decrypts, and the two remote calls and the reading
  of the stream raise nothing.
\<close>

definition forward_calls :: "effect list \<Rightarrow> nat" where
  "forward_calls es = length (filter (\<lambda>e. case e of Add_message _ _ _ \<Rightarrow> True | _ \<Rightarrow> False) es)"

definition store_writes :: "effect list \<Rightarrow> nat" where
  "store_writes es = length (filter (\<lambda>e. case e of Update_drive_document _ _ _ \<Rightarrow> True
                                                   | Create_drive_document _ \<Rightarrow> True | _ \<Rightarrow> False) es)"

definition forward_succeeds :: "world \<Rightarrow> string \<Rightarrow> metadata \<Rightarrow> string \<Rightarrow> bool" where
  "forward_succeeds w cid md content_text =
     (case lookup_client w cid of None \<Rightarrow> False | Some api_key \<Rightarrow>
     (case fernet_decrypt w api_key of Raises _ \<Rightarrow> False | Returns k \<Rightarrow>
     (case lookup_assistant w cid of None \<Rightarrow> False | Some a \<Rightarrow>
     (case create_thread w k a of Raises _ \<Rightarrow> False | Returns t \<Rightarrow>
     (case add_message w k t (formatted_content md content_text) of Raises _ \<Rightarrow> False | Returns chunks \<Rightarrow>
     (case collect_output chunks of Inl _ \<Rightarrow> False | Inr _ \<Rightarrow> True))))))"

subsection \<open>Concrete runs\<close>

text \<open>
  A world with one client and one assistant, in which every file has metadata; what the
  export of a file returns and how Backboard answers a submitted text are given.
\<close>

definition scenario :: "(string \<Rightarrow> string api_result) \<Rightarrow> (string \<Rightarrow> chunk list api_result) \<Rightarrow> world" where
  "scenario export reply =
     \<lparr>files_get = (\<lambda>f. Returns \<lparr>name = f, modifiedTime = ''2026-02-02T09:30:00.000Z'', webViewLink = None\<rparr>),
      files_export = export,
      clients = [''client1'' \<mapsto> ''gAAAAB''],
      assistants = [(''asst1'', ''client1'')],
      fernet_decrypt = (\<lambda>k. Returns ''sk-key''),
      create_thread = (\<lambda>k a. Returns ''thread1''),
      add_message = (\<lambda>k t c. reply c)\<rparr>"

text \<open>
  A state whose table holds \<open>doc1\<close> as \<open>register_document_for_monitoring\<close> enters a
  document: the row has an empty hash and empty content.
\<close>

definition registered_state :: poller_state where
  "registered_state =
     \<lparr>drive_documents = [''doc1'' \<mapsto>
        \<lparr>file_id = ''doc1'', client_id = ''client1'', file_name = ''doc1'', content_hash = '''',
         last_modified = ''2026-01-01T08:00:00.000Z'', content = ''''\<rparr>],
      effects = [], printed = []\<rparr>"

text \<open>The table after a first ingest of \<open>doc1\<close> with the content \<open>old notes\<close>.\<close>

definition ingested_state :: poller_state where
  "ingested_state =
     \<lparr>drive_documents = [''doc1'' \<mapsto>
        \<lparr>file_id = ''doc1'', client_id = ''client1'', file_name = ''doc1'',
         content_hash = compute_content_hash ''old notes'',
         last_modified = ''2026-01-01T08:00:00.000Z'', content = ''old notes''\<rparr>],
      effects = [], printed = []\<rparr>"

definition empty_state :: poller_state where
  "empty_state = \<lparr>drive_documents = Map.empty, effects = [], printed = []\<rparr>"

section \<open>tools.py: the module, texts and regular expressions\<close>

subsection \<open>The import of the module\<close>

text \<open>
  A \<open>def\<close> is compiled only if no parameter without a default follows one that has
  a default; otherwise the compiler raises \<open>SyntaxError\<close>, and so does the import of the
  module that holds the \<open>def\<close>. The parameters of every \<open>def\<close> of tools.py are
  listed with a flag that tells whether they have a default:
  \<open>handle_get_recent_context\<close> has \<open>hours: int = 24\<close> in the second place, before
  \<open>backboard_client\<close> and \<open>assistant_id\<close>, which have none.
\<close>

fun parameters_ok :: "(string \<times> bool) list \<Rightarrow> bool" where
  "parameters_ok [] = True"
| "parameters_ok ((n, has_default) # ps) = (if has_default then list_all snd ps else parameters_ok ps)"

definition tools_defs :: "(string \<times> (string \<times> bool) list) list" where
  "tools_defs =
     [(''detect_tool_invocation'', [(''content'', False)]),
      (''handle_create_file'',
         [(''client_id'', False), (''filename'', False), (''content'', False),
          (''backboard_client'', False), (''assistant_id'', False)]),
      (''handle_get_recent_context'',
         [(''client_id'', False), (''hours'', True),
          (''backboard_client'', False), (''assistant_id'', False)]),
      (''format_recent_context'', [(''context'', False), (''hours'', False)]),
      (''handle_generate_mermaid_graph'',
         [(''client_id'', False), (''topic'', False),
          (''backboard_client'', False), (''assistant_id'', False)]),
      (''build_mermaid_graph'', [(''topic'', False), (''memories'', False)]),
      (''execute_tool'',
         [(''tool_name'', False), (''client_id'', False), (''content'', False),
          (''backboard_client'', False), (''assistant_id'', False)])]"

definition import_tools :: "exn option" where
  "import_tools =
     (if list_all (\<lambda>d. parameters_ok (snd d)) tools_defs then None
      else Some (SyntaxError ''non-default argument follows default argument''))"

text \<open>
  What a caller gets that imports tools.py as it is and calls one of its functions:
  the exception of the import, if there is one, and otherwise what the function gives.
  The definitions below are the functions as their bodies are written, with the
  arguments of \<open>handle_get_recent_context\<close> in the order of its parameter list.
\<close>

definition tools_call :: "exn + 'a \<Rightarrow> exn + 'a" where
  "tools_call r = (case import_tools of Some e \<Rightarrow> Inl e | None \<Rightarrow> r)"

subsection \<open>Texts\<close>

text \<open>
  In this module a text is a Python \<open>str\<close>: the list of its code points. \<open>u\<close> writes a
  literal of ASCII characters as a text.
\<close>

type_synonym pystr = "nat list"

definition u :: "string \<Rightarrow> pystr" where
  "u s = map of_char s"

text \<open>
  The Unicode data of the interpreter that the module depends on beyond ASCII:
  \<open>str.isalnum\<close> of a code point, the value of a code point that is a decimal digit
  (\<open>str.isdecimal\<close>), and \<open>str.lower\<close> of a text. On ASCII the functions below do not
  consult them.
\<close>

record unicode =
  isalnum :: "nat \<Rightarrow> bool"
  decimal :: "nat \<Rightarrow> nat option"
  str_lower :: "pystr \<Rightarrow> pystr"

subsection \<open>Character classes and string methods\<close>

text \<open>
  The classes of \<open>re\<close> on \<open>str\<close> patterns. \<open>\s\<close> is \<open>str.isspace\<close>: the code points
  9 to 13, 28 to 32, U+0085, U+00A0, U+1680, U+2000 to U+200A, U+2028, U+2029, U+202F,
  U+205F and U+3000. \<open>\w\<close> is \<open>str.isalnum\<close> or the underscore, \<open>\d\<close> is
  \<open>str.isdecimal\<close>.
\<close>

definition is_space :: "nat \<Rightarrow> bool" where
  "is_space c =
     ((9 \<le> c \<and> c \<le> 13) \<or> (28 \<le> c \<and> c \<le> 32) \<or> c = 0x85 \<or> c = 0xA0 \<or> c = 0x1680
      \<or> (0x2000 \<le> c \<and> c \<le> 0x200A) \<or> c = 0x2028 \<or> c = 0x2029 \<or> c = 0x202F \<or> c = 0x205F
      \<or> c = 0x3000)"

definition ascii_digit :: "nat \<Rightarrow> bool" where
  "ascii_digit c = (48 \<le> c \<and> c \<le> 57)"

definition is_digit :: "unicode \<Rightarrow> nat \<Rightarrow> bool" where
  "is_digit ucd c = (if c < 128 then ascii_digit c else decimal ucd c \<noteq> None)"

definition word_char :: "unicode \<Rightarrow> nat \<Rightarrow> bool" where
  "word_char ucd c =
     (if c < 128 then (97 \<le> c \<and> c \<le> 122) \<or> (65 \<le> c \<and> c \<le> 90) \<or> ascii_digit c \<or> c = 95
      else isalnum ucd c)"

text \<open>The two quote characters: \<open>"\<close> (34) and \<open>'\<close> (39).\<close>

definition is_quote :: "nat \<Rightarrow> bool" where
  "is_quote c = (c = 34 \<or> c = 39)"

text \<open>
  \<open>s.lower()\<close> (on an ASCII text the letters A to Z are folded, on any other text the
  interpreter's \<open>str.lower\<close> decides), \<open>s.strip()\<close>, \<open>p in s\<close> and
  \<open>s.replace(old, new)\<close> for a non-empty \<open>old\<close>.
\<close>

definition ascii_lower :: "nat \<Rightarrow> nat" where
  "ascii_lower c = (if 65 \<le> c \<and> c \<le> 90 then c + 32 else c)"

definition lower :: "unicode \<Rightarrow> pystr \<Rightarrow> pystr" where
  "lower ucd s = (if list_all (\<lambda>c. c < 128) s then map ascii_lower s else str_lower ucd s)"

definition strip :: "pystr \<Rightarrow> pystr" where
  "strip s = rev (dropWhile is_space (rev (dropWhile is_space s)))"

fun contains :: "pystr \<Rightarrow> pystr \<Rightarrow> bool" where
  "contains p [] = (p = [])"
| "contains p (c # cs) = (take (length p) (c # cs) = p \<or> contains p cs)"

text \<open>
  \<open>replace_from old new k s\<close> copies \<open>s\<close> with every occurrence of \<open>old\<close>, taken from
  left to right without overlap, replaced by \<open>new\<close>; \<open>k\<close> is the number of characters of
  the occurrence just replaced that are still to be skipped.
\<close>

fun replace_from :: "pystr \<Rightarrow> pystr \<Rightarrow> nat \<Rightarrow> pystr \<Rightarrow> pystr" where
  "replace_from old new k [] = []"
| "replace_from old new k (c # cs) =
     (if 0 < k then replace_from old new (k - 1) cs
      else if take (length old) (c # cs) = old then new @ replace_from old new (length old - 1) cs
      else c # replace_from old new 0 cs)"

definition str_replace :: "pystr \<Rightarrow> pystr \<Rightarrow> pystr \<Rightarrow> pystr" where
  "str_replace s old new = replace_from old new 0 s"

text \<open>
  \<open>int(s)\<close> for a text of decimal digits, as \<open>(\d+)\<close> captures it. The conversion
  raises \<open>ValueError\<close> when the text has more digits than
  \<open>sys.get_int_max_str_digits()\<close> allows (4300 unless configured; 0 lifts the limit).
\<close>

definition digit_value :: "unicode \<Rightarrow> nat \<Rightarrow> int" where
  "digit_value ucd c =
     (if c < 128 then int c - 48 else (case decimal ucd c of Some d \<Rightarrow> int d | None \<Rightarrow> 0))"

definition py_int :: "nat \<Rightarrow> unicode \<Rightarrow> pystr \<Rightarrow> exn + int" where
  "py_int max_str_digits ucd s =
     (if 0 < max_str_digits \<and> max_str_digits < length s
      then Inl (ValueError ''Exceeds the limit for integer string conversion'')
      else Inr (foldl (\<lambda>n c. 10 * n + digit_value ucd c) 0 s))"

subsection \<open>The fragment of \<open>re\<close> the module uses\<close>

text \<open>
  Every pattern of tools.py is a sequence of items over character classes with exactly
  one group: a single character, an optional character (\<open>c?\<close>), a greedy repetition
  (\<open>c+\<close>), a captured greedy repetition (\<open>(c+)\<close>) and a captured lazy repetition
  (\<open>(c+?)\<close>). \<open>re_match\<close> is the backtracking matcher at one position: a greedy item
  tries its longest run first, a lazy one its shortest, and each gives way when the rest
  of the pattern fails. The result is the text of the group.
\<close>

datatype item =
    Lit "nat \<Rightarrow> bool"
  | Opt "nat \<Rightarrow> bool"
  | Plus "nat \<Rightarrow> bool"
  | Group_Plus "nat \<Rightarrow> bool"
  | Group_Lazy "nat \<Rightarrow> bool"

fun first_Some :: "'a option list \<Rightarrow> 'a option" where
  "first_Some [] = None"
| "first_Some (None # xs) = first_Some xs"
| "first_Some (Some x # xs) = Some x"

text \<open>The lengths a repetition of the class \<open>p\<close> can take at the head of \<open>s\<close>, shortest first.\<close>

definition run_lengths :: "(nat \<Rightarrow> bool) \<Rightarrow> pystr \<Rightarrow> nat list" where
  "run_lengths p s = [1..<Suc (length (takeWhile p s))]"

fun re_match :: "item list \<Rightarrow> pystr \<Rightarrow> pystr \<Rightarrow> pystr option" where
  "re_match [] s g = Some g"
| "re_match (Lit p # r) s g =
     (case s of [] \<Rightarrow> None | c # s' \<Rightarrow> if p c then re_match r s' g else None)"
| "re_match (Opt p # r) s g =
     (case s of
        [] \<Rightarrow> re_match r s g
      | c # s' \<Rightarrow>
          if p c then (case re_match r s' g of Some x \<Rightarrow> Some x | None \<Rightarrow> re_match r s g)
          else re_match r s g)"
| "re_match (Plus p # r) s g =
     first_Some (map (\<lambda>n. re_match r (drop n s) g) (rev (run_lengths p s)))"
| "re_match (Group_Plus p # r) s g =
     first_Some (map (\<lambda>n. re_match r (drop n s) (take n s)) (rev (run_lengths p s)))"
| "re_match (Group_Lazy p # r) s g =
     first_Some (map (\<lambda>n. re_match r (drop n s) (take n s)) (run_lengths p s))"

text \<open>\<open>re.search\<close>: the match at the leftmost position that has one; \<open>group(1)\<close> of it.\<close>

fun re_search :: "item list \<Rightarrow> pystr \<Rightarrow> pystr option" where
  "re_search pat [] = re_match pat [] []"
| "re_search pat (c # cs) =
     (case re_match pat (c # cs) [] of Some g \<Rightarrow> Some g | None \<Rightarrow> re_search pat cs)"

text \<open>
  A lower-case ASCII letter \<open>l\<close> of a pattern under \<open>re.IGNORECASE\<close>: it matches
  itself, its capital, and for \<open>i\<close> also U+0130 and U+0131, for \<open>s\<close> also U+017F, for
  \<open>k\<close> also U+212A. \<open>ignore_case\<close> is a literal text of such letters; then the class
  \<open>[:\s]\<close>.
\<close>

definition ignore_case_eq :: "nat \<Rightarrow> nat \<Rightarrow> bool" where
  "ignore_case_eq l c =
     (ascii_lower c = l \<or> (l = 105 \<and> (c = 0x130 \<or> c = 0x131)) \<or> (l = 115 \<and> c = 0x17F)
      \<or> (l = 107 \<and> c = 0x212A))"

definition ignore_case :: "string \<Rightarrow> item list" where
  "ignore_case s = map (\<lambda>l. Lit (ignore_case_eq l)) (u s)"

definition colon_or_space :: "nat \<Rightarrow> bool" where
  "colon_or_space c = (c = 58 \<or> is_space c)"

subsection \<open>The patterns\<close>

text \<open>\<^verbatim>\<open>@["\']?(\w+)["\']?\<close>, where \<open>@\<close> is the code point 64\<close>

definition tool_pattern :: "unicode \<Rightarrow> item list" where
  "tool_pattern ucd = [Lit (\<lambda>c. c = 64), Opt is_quote, Group_Plus (word_char ucd), Opt is_quote]"

text \<open>\<^verbatim>\<open>filename[:\s]+["\']?([^"\']+)["\']?\<close> with \<open>re.IGNORECASE\<close>\<close>

definition filename_pattern :: "item list" where
  "filename_pattern =
     ignore_case ''filename'' @ [Plus colon_or_space, Opt is_quote, Group_Plus (\<lambda>c. \<not> is_quote c), Opt is_quote]"

text \<open>\<^verbatim>\<open>content[:\s]+["\'](.+?)["\']\<close> with \<open>re.DOTALL | re.IGNORECASE\<close>\<close>

definition content_pattern :: "item list" where
  "content_pattern =
     ignore_case ''content'' @ [Plus colon_or_space, Lit is_quote, Group_Lazy (\<lambda>c. True), Lit is_quote]"

text \<open>\<^verbatim>\<open>hours?[:\s]+(\d+)\<close> with \<open>re.IGNORECASE\<close>\<close>

definition hours_pattern :: "unicode \<Rightarrow> item list" where
  "hours_pattern ucd =
     ignore_case ''hour'' @ [Opt (ignore_case_eq 115), Plus colon_or_space, Group_Plus (is_digit ucd)]"

text \<open>\<^verbatim>\<open>topic[:\s]+["\']?([^"\']+)["\']?\<close> with \<open>re.IGNORECASE\<close>\<close>

definition topic_pattern :: "item list" where
  "topic_pattern =
     ignore_case ''topic'' @ [Plus colon_or_space, Opt is_quote, Group_Plus (\<lambda>c. \<not> is_quote c), Opt is_quote]"

section \<open>tools.py: detection\<close>

definition detect_tool_invocation :: "unicode \<Rightarrow> pystr \<Rightarrow> pystr option" where
  "detect_tool_invocation ucd content_text = re_search (tool_pattern ucd) content_text"

section \<open>tools.py: the handlers\<close>

subsection \<open>Values\<close>

text \<open>
  A memory returned by Backboard is JSON data: its fields may be missing or of any type,
  and the handlers call \<open>get\<close>, \<open>lower\<close>, \<open>replace\<close> and slicing on them. A call
  on a value without the method raises \<open>AttributeError\<close>; \<open>x[:n] + "..."\<close> raises
  unless \<open>x\<close> is a string (\<open>TypeError\<close>, or for a dictionary, depending on the
  version of Python, \<open>KeyError\<close>: neither is caught by the inner \<open>try\<close>). A number
  stands for a float as well: no operation used here tells them apart.
\<close>

datatype json =
    JNull
  | JBool bool
  | JInt int
  | JStr pystr
  | JList "json list"
  | JDict "(pystr \<times> json) list"

fun truthy :: "json \<Rightarrow> bool" where
  "truthy JNull = False"
| "truthy (JBool b) = b"
| "truthy (JInt n) = (n \<noteq> 0)"
| "truthy (JStr s) = (s \<noteq> [])"
| "truthy (JList l) = (l \<noteq> [])"
| "truthy (JDict d) = (d \<noteq> [])"

definition py_get :: "json \<Rightarrow> string \<Rightarrow> json \<Rightarrow> exn + json" where
  "py_get obj key dflt =
     (case obj of
        JDict d \<Rightarrow> Inr (case map_of d (u key) of Some v \<Rightarrow> v | None \<Rightarrow> dflt)
      | _ \<Rightarrow> Inl (AttributeError ''get''))"

definition py_lower :: "unicode \<Rightarrow> json \<Rightarrow> exn + pystr" where
  "py_lower ucd obj = (case obj of JStr s \<Rightarrow> Inr (lower ucd s) | _ \<Rightarrow> Inl (AttributeError ''lower''))"

definition preview :: "nat \<Rightarrow> json \<Rightarrow> exn + pystr" where
  "preview n obj = (case obj of JStr s \<Rightarrow> Inr (take n s @ u ''...'') | _ \<Rightarrow> Inl (TypeError ''slice''))"

text \<open>
  The entry a handler builds for a memory: the preview of its content, its
  \<open>ingested_at\<close> string and its \<open>memory_id\<close>. The three buckets of
  \<open>recent_context\<close>.
\<close>

datatype memory_entry = Memory_entry pystr pystr json

record recent_context =
  telegram :: "memory_entry list"
  drive :: "memory_entry list"
  github :: "memory_entry list"

text \<open>
  A value of a result dictionary; \<open>F_exc e\<close> is the string \<open>str(e)\<close> of an exception.
  A result is the list of its keys and values, in the order of the dictionary display.
\<close>

datatype field = F_str pystr | F_int int | F_exc exn | F_context recent_context

type_synonym tool_result = "(string \<times> field) list"

text \<open>
  What lies outside the handlers. The memories Backboard returns for an assistant (the
  call raises \<open>AttributeError\<close> when the client has no \<open>get_memories\<close>). The value of
  \<open>datetime.now()\<close>: the reading of the local clock, without a time zone, and the
  offset of that clock from UTC. \<open>datetime.fromisoformat\<close>: the reading a timestamp
  denotes and, when the timestamp names one, its offset from UTC; \<open>None\<close> stands for
  the \<open>ValueError\<close>. The Unicode data and the digit limit of \<open>int\<close>. A reading is
  the number of microseconds since 0001-01-01T00:00:00, the least \<open>datetime\<close>; an
  offset is a number of microseconds.
\<close>

record tool_world =
  get_memories :: "pystr \<Rightarrow> json list api_result"
  now :: int
  local_utcoffset :: int
  fromisoformat :: "pystr \<Rightarrow> (int \<times> int option) option"
  unicode_data :: unicode
  int_max_str_digits :: nat

subsection \<open>\<open>handle_create_file\<close>\<close>

definition handle_create_file :: "pystr \<Rightarrow> pystr \<Rightarrow> pystr \<Rightarrow> tool_world \<Rightarrow> pystr \<Rightarrow> tool_result" where
  "handle_create_file cid filename file_content w assistant_id =
     [(''tool'', F_str (u ''create_file'')),
      (''status'', F_str (u ''ready'')),
      (''filename'', F_str filename),
      (''content'', F_str file_content),
      (''message'', F_str (u ''File creation request prepared: '' @ filename))]"

subsection \<open>\<open>handle_get_recent_context\<close>\<close>

text \<open>
  \<open>now - timedelta(hours=hours)\<close>. The \<open>timedelta\<close> raises \<open>OverflowError\<close> when
  its days exceed 999999999 in magnitude, and the subtraction when the result is not a
  \<open>datetime\<close> of the years 1 to 9999.
\<close>

definition datetime_max :: int where
  "datetime_max = 3652059 * 86400 * 1000000 - 1"

definition cutoff_time :: "int \<Rightarrow> int \<Rightarrow> exn + int" where
  "cutoff_time now_value hours =
     (if \<bar>hours div 24\<bar> > 999999999 then Inl (OverflowError ''timedelta'')
      else let t = now_value - hours * 3600 * 1000000
           in if t < 0 \<or> datetime_max < t then Inl (OverflowError ''date value out of range'')
              else Inr t)"

text \<open>The \<open>try\<close> around \<open>get_memories\<close>: without the method the list is empty.\<close>

definition fetch_memories :: "tool_world \<Rightarrow> pystr \<Rightarrow> exn + json list" where
  "fetch_memories w assistant_id =
     (case get_memories w assistant_id of
        Returns ms \<Rightarrow> Inr ms
      | Raises (AttributeError a) \<Rightarrow> Inr []
      | Raises e \<Rightarrow> Inl e)"

text \<open>
  The body of the inner \<open>try\<close> (lines 105 to 118) for one memory.
  \<open>ingested_at.replace(tzinfo=None)\<close> keeps the reading of the timestamp and drops its
  offset; the reading is compared with the cutoff, which comes from the local clock.
\<close>

definition bucket_entry ::
  "tool_world \<Rightarrow> int \<Rightarrow> json \<Rightarrow> json \<Rightarrow> json \<Rightarrow> recent_context \<Rightarrow> exn + recent_context" where
  "bucket_entry w cutoff memory source ingested_at_str ctx =
     (case ingested_at_str of
        JStr s \<Rightarrow>
          (case fromisoformat w (str_replace s (u ''Z'') (u ''+00:00'')) of
             None \<Rightarrow> Inl (ValueError ''fromisoformat'')
           | Some (reading, offset) \<Rightarrow>
               if cutoff \<le> reading then
                 (case py_get memory ''content'' (JStr []) of Inl e \<Rightarrow> Inl e | Inr c \<Rightarrow>
                 (case preview 200 c of Inl e \<Rightarrow> Inl e | Inr p \<Rightarrow>
                 (case py_get memory ''memory_id'' JNull of Inl e \<Rightarrow> Inl e | Inr mid \<Rightarrow>
                 (case py_lower (unicode_data w) source of Inl e \<Rightarrow> Inl e | Inr src \<Rightarrow>
                    Inr (if src = u ''telegram'' then ctx\<lparr>telegram := telegram ctx @ [Memory_entry p s mid]\<rparr>
                         else if src = u ''drive'' then ctx\<lparr>drive := drive ctx @ [Memory_entry p s mid]\<rparr>
                         else if src = u ''github'' \<or> src = u ''git''
                           then ctx\<lparr>github := github ctx @ [Memory_entry p s mid]\<rparr>
                         else ctx)))))
               else Inr ctx)
      | _ \<Rightarrow> Inl (AttributeError ''replace''))"

text \<open>
  One turn of the loop over the memories (lines 97 to 121): the inner \<open>try\<close> lets
  \<open>ValueError\<close> and \<open>AttributeError\<close> pass; anything else, and what the three
  \<open>get\<close> calls before it raise, leaves the loop.
\<close>

definition group_memory :: "tool_world \<Rightarrow> int \<Rightarrow> recent_context \<Rightarrow> json \<Rightarrow> exn + recent_context" where
  "group_memory w cutoff ctx memory =
     (case py_get memory ''metadata'' (JDict []) of Inl e \<Rightarrow> Inl e | Inr md \<Rightarrow>
     (case py_get md ''source'' (JStr (u ''unknown'')) of Inl e \<Rightarrow> Inl e | Inr source \<Rightarrow>
     (case py_get md ''ingested_at'' JNull of Inl e \<Rightarrow> Inl e | Inr ingested_at_str \<Rightarrow>
        if truthy ingested_at_str then
          (case bucket_entry w cutoff memory source ingested_at_str ctx of
             Inl (ValueError a) \<Rightarrow> Inr ctx
           | Inl (AttributeError a) \<Rightarrow> Inr ctx
           | Inl e \<Rightarrow> Inl e
           | Inr ctx' \<Rightarrow> Inr ctx')
        else Inr ctx)))"

fun group_memories :: "tool_world \<Rightarrow> int \<Rightarrow> recent_context \<Rightarrow> json list \<Rightarrow> exn + recent_context" where
  "group_memories w cutoff ctx [] = Inr ctx"
| "group_memories w cutoff ctx (m # ms) =
     (case group_memory w cutoff ctx m of
        Inl e \<Rightarrow> Inl e
      | Inr ctx' \<Rightarrow> group_memories w cutoff ctx' ms)"

text \<open>
  \<open>format_recent_context\<close>. The pictographs of the source are the code points U+1F4CA,
  U+1F4E2, U+1F4C4 and U+1F4BB, its bullet is U+2022.
\<close>

definition entry_content :: "memory_entry \<Rightarrow> pystr" where
  "entry_content e = (case e of Memory_entry p s mid \<Rightarrow> p)"

definition format_items :: "memory_entry list \<Rightarrow> pystr" where
  "format_items items =
     concat (map (\<lambda>item. u ''  '' @ [0x2022] @ u '' '' @ entry_content item @ [10]) (take 5 items))"

definition format_recent_context :: "recent_context \<Rightarrow> int \<Rightarrow> pystr" where
  "format_recent_context ctx hours =
     (let telegram_count = length (telegram ctx);
          drive_count = length (drive ctx);
          github_count = length (github ctx)
      in [0x1F4CA] @ u '' Recent Activity (Last '' @ u (str_int hours) @ u '' hours)'' @ [10, 10]
         @ (if 0 < telegram_count then
              [0x1F4E2] @ u '' Chat Decisions (Source: Telegram) - ''
              @ u (str_nat telegram_count) @ u '' items'' @ [10]
              @ format_items (telegram ctx) @ [10]
            else [])
         @ (if 0 < drive_count then
              [0x1F4C4] @ u '' New Specs (Source: Drive) - ''
              @ u (str_nat drive_count) @ u '' items'' @ [10]
              @ format_items (drive ctx) @ [10]
            else [])
         @ (if 0 < github_count then
              [0x1F4BB] @ u '' Code Changes (Source: Github) - ''
              @ u (str_nat github_count) @ u '' items'' @ [10]
              @ format_items (github ctx) @ [10]
            else [])
         @ (if telegram_count = 0 \<and> drive_count = 0 \<and> github_count = 0
            then u ''No recent activity found in the specified time period.'' @ [10]
            else []))"

text \<open>The body of the outer \<open>try\<close>, and the handler with its \<open>except Exception\<close>.\<close>

definition recent_context_body :: "int \<Rightarrow> tool_world \<Rightarrow> pystr \<Rightarrow> exn + tool_result" where
  "recent_context_body hours w assistant_id =
     (case fetch_memories w assistant_id of Inl e \<Rightarrow> Inl e | Inr memories \<Rightarrow>
     (case cutoff_time (now w) hours of Inl e \<Rightarrow> Inl e | Inr cutoff \<Rightarrow>
     (case group_memories w cutoff \<lparr>telegram = [], drive = [], github = []\<rparr> memories of
        Inl e \<Rightarrow> Inl e
      | Inr ctx \<Rightarrow>
          Inr [(''tool'', F_str (u ''get_recent_context'')),
               (''status'', F_str (u ''success'')),
               (''hours'', F_int hours),
               (''context'', F_context ctx),
               (''formatted'', F_str (format_recent_context ctx hours))])))"

definition handle_get_recent_context :: "pystr \<Rightarrow> int \<Rightarrow> tool_world \<Rightarrow> pystr \<Rightarrow> tool_result" where
  "handle_get_recent_context cid hours w assistant_id =
     (case recent_context_body hours w assistant_id of
        Inr result \<Rightarrow> result
      | Inl e \<Rightarrow>
          [(''tool'', F_str (u ''get_recent_context'')),
           (''status'', F_str (u ''error'')),
           (''error'', F_exc e)])"

subsection \<open>\<open>handle_generate_mermaid_graph\<close>\<close>

text \<open>The nodes of the three groups, each a node id and a label.\<close>

record mermaid_nodes =
  telegram_nodes :: "(pystr \<times> pystr) list"
  drive_nodes :: "(pystr \<times> pystr) list"
  code_nodes :: "(pystr \<times> pystr) list"

definition mermaid_node :: "unicode \<Rightarrow> nat \<Rightarrow> json \<Rightarrow> mermaid_nodes \<Rightarrow> exn + mermaid_nodes" where
  "mermaid_node ucd i memory nodes =
     (case py_get memory ''metadata'' (JDict []) of Inl e \<Rightarrow> Inl e | Inr md \<Rightarrow>
     (case py_get md ''source'' (JStr (u ''unknown'')) of Inl e \<Rightarrow> Inl e | Inr source_value \<Rightarrow>
     (case py_lower ucd source_value of Inl e \<Rightarrow> Inl e | Inr source \<Rightarrow>
     (case py_get memory ''content'' (JStr []) of Inl e \<Rightarrow> Inl e | Inr c \<Rightarrow>
     (case preview 50 c of Inl e \<Rightarrow> Inl e | Inr label \<Rightarrow>
        (let node_id = u ''Node'' @ u (str_nat i) in
         Inr (if source = u ''telegram'' then nodes\<lparr>telegram_nodes := telegram_nodes nodes @ [(node_id, label)]\<rparr>
              else if source = u ''drive'' then nodes\<lparr>drive_nodes := drive_nodes nodes @ [(node_id, label)]\<rparr>
              else if source = u ''github'' \<or> source = u ''git''
                then nodes\<lparr>code_nodes := code_nodes nodes @ [(node_id, label)]\<rparr>
              else nodes)))))))"

fun mermaid_loop :: "unicode \<Rightarrow> nat \<Rightarrow> json list \<Rightarrow> mermaid_nodes \<Rightarrow> exn + mermaid_nodes" where
  "mermaid_loop ucd i [] nodes = Inr nodes"
| "mermaid_loop ucd i (m # ms) nodes =
     (case mermaid_node ucd i m nodes of
        Inl e \<Rightarrow> Inl e
      | Inr nodes' \<Rightarrow> mermaid_loop ucd (Suc i) ms nodes')"

definition mermaid_edges :: "string \<Rightarrow> (pystr \<times> pystr) list \<Rightarrow> pystr" where
  "mermaid_edges parent nodes =
     concat (map (\<lambda>(node_id, label).
        u ''    '' @ u parent @ u '' --> '' @ node_id @ u ''['' @ [34] @ label @ [34] @ u '']'' @ [10]) nodes)"

definition build_mermaid_graph :: "unicode \<Rightarrow> pystr \<Rightarrow> json list \<Rightarrow> exn + pystr" where
  "build_mermaid_graph ucd topic memories =
     (case mermaid_loop ucd 0 (take 10 memories) \<lparr>telegram_nodes = [], drive_nodes = [], code_nodes = []\<rparr> of
        Inl e \<Rightarrow> Inl e
      | Inr nodes \<Rightarrow>
          Inr (u ''graph TD'' @ [10]
               @ u ''    Start['' @ [34] @ topic @ [34] @ u '']'' @ [10]
               @ (if telegram_nodes nodes \<noteq> [] then
                    u ''    Start --> Telegram['' @ [34] @ u ''Telegram Discussions'' @ [34] @ u '']'' @ [10]
                    @ mermaid_edges ''Telegram'' (telegram_nodes nodes)
                  else [])
               @ (if drive_nodes nodes \<noteq> [] then
                    u ''    Start --> Drive['' @ [34] @ u ''Drive Documents'' @ [34] @ u '']'' @ [10]
                    @ mermaid_edges ''Drive'' (drive_nodes nodes)
                  else [])
               @ (if code_nodes nodes \<noteq> [] then
                    u ''    Start --> Code['' @ [34] @ u ''Code Implementation'' @ [34] @ u '']'' @ [10]
                    @ mermaid_edges ''Code'' (code_nodes nodes)
                  else [])
               @ (if telegram_nodes nodes = [] \<and> drive_nodes nodes = [] \<and> code_nodes nodes = [] then
                    u ''    Start --> NoData['' @ [34] @ u ''No related data found'' @ [34] @ u '']'' @ [10]
                  else [])))"

text \<open>The memories whose content, in lower case, contains the topic in lower case.\<close>

fun related_memories :: "unicode \<Rightarrow> pystr \<Rightarrow> json list \<Rightarrow> exn + json list" where
  "related_memories ucd topic [] = Inr []"
| "related_memories ucd topic (m # ms) =
     (case py_get m ''content'' (JStr []) of Inl e \<Rightarrow> Inl e | Inr c \<Rightarrow>
     (case py_lower ucd c of Inl e \<Rightarrow> Inl e | Inr content_lower \<Rightarrow>
     (case related_memories ucd topic ms of Inl e \<Rightarrow> Inl e | Inr rest \<Rightarrow>
        Inr (if contains (lower ucd topic) content_lower then m # rest else rest))))"

definition mermaid_body :: "pystr \<Rightarrow> tool_world \<Rightarrow> pystr \<Rightarrow> exn + tool_result" where
  "mermaid_body topic w assistant_id =
     (case fetch_memories w assistant_id of Inl e \<Rightarrow> Inl e | Inr memories \<Rightarrow>
     (case related_memories (unicode_data w) topic memories of Inl e \<Rightarrow> Inl e | Inr related \<Rightarrow>
     (case build_mermaid_graph (unicode_data w) topic related of
        Inl e \<Rightarrow> Inl e
      | Inr mermaid_syntax \<Rightarrow>
          Inr [(''tool'', F_str (u ''generate_mermaid_graph'')),
               (''status'', F_str (u ''success'')),
               (''topic'', F_str topic),
               (''mermaid'', F_str mermaid_syntax),
               (''formatted'', F_str ([96, 96, 96] @ u ''mermaid'' @ [10]
                  @ mermaid_syntax @ [10] @ [96, 96, 96]))])))"

definition handle_generate_mermaid_graph :: "pystr \<Rightarrow> pystr \<Rightarrow> tool_world \<Rightarrow> pystr \<Rightarrow> tool_result" where
  "handle_generate_mermaid_graph cid topic w assistant_id =
     (case mermaid_body topic w assistant_id of
        Inr result \<Rightarrow> result
      | Inl e \<Rightarrow>
          [(''tool'', F_str (u ''generate_mermaid_graph'')),
           (''status'', F_str (u ''error'')),
           (''error'', F_exc e)])"

subsection \<open>\<open>execute_tool\<close>\<close>

text \<open>
  \<open>execute_tool\<close>. The conversion \<open>int(hours_match.group(1))\<close> of line 318 stands
  outside every \<open>try\<close>: what it raises leaves the function.
\<close>

definition execute_tool :: "pystr \<Rightarrow> pystr \<Rightarrow> pystr \<Rightarrow> tool_world \<Rightarrow> pystr \<Rightarrow> exn + tool_result" where
  "execute_tool tool_name cid content_text w assistant_id =
     (if tool_name = u ''create_file'' then
        (let filename_match = re_search filename_pattern content_text;
             content_match = re_search content_pattern content_text;
             filename = (case filename_match of Some g \<Rightarrow> g | None \<Rightarrow> u ''docs/ONBOARDING.md'');
             file_content = (case content_match of Some g \<Rightarrow> g | None \<Rightarrow> [])
         in if file_content = [] then
              Inr [(''tool'', F_str (u ''create_file'')),
                   (''status'', F_str (u ''pending_content'')),
                   (''filename'', F_str filename),
                   (''message'', F_str (u ''Please provide the content for '' @ filename))]
            else Inr (handle_create_file cid filename file_content w assistant_id))
      else if tool_name = u ''get_recent_context'' then
        (case re_search (hours_pattern (unicode_data w)) content_text of
           Some g \<Rightarrow>
             (case py_int (int_max_str_digits w) (unicode_data w) g of
                Inl e \<Rightarrow> Inl e
              | Inr hours \<Rightarrow> Inr (handle_get_recent_context cid hours w assistant_id))
         | None \<Rightarrow> Inr (handle_get_recent_context cid 24 w assistant_id))
      else if tool_name = u ''generate_mermaid_graph'' then
        (let topic_match = re_search topic_pattern content_text;
             topic = (case topic_match of
                        Some g \<Rightarrow> g
                      | None \<Rightarrow> strip (str_replace content_text (u ''@'' @ tool_name) []))
         in Inr (handle_generate_mermaid_graph cid topic w assistant_id))
      else
        Inr [(''tool'', F_str tool_name),
             (''status'', F_str (u ''error'')),
             (''error'', F_str (u ''Unknown tool: '' @ tool_name))])"

subsection \<open>The grammar of the specification\<close>

text \<open>
  The invocation grammar as the specification words it: an \<open>@\<close> immediately followed by
  an identifier, either bare or wrapped in a quote on each side (\<open>@"create_file"\<close>,
  \<open>@create_file\<close>, \<open>@'create_file'\<close>). \<open>spec_marker\<close> reads such an invocation at
  the head of a text, \<open>spec_detect\<close> the first one of a text.
\<close>

definition spec_marker :: "unicode \<Rightarrow> pystr \<Rightarrow> pystr option" where
  "spec_marker ucd s =
     (case s of
        [] \<Rightarrow> None
      | c # r \<Rightarrow>
          if c \<noteq> 64 then None
          else (case r of
                  [] \<Rightarrow> None
                | q # r' \<Rightarrow>
                    if is_quote q then
                      (if takeWhile (word_char ucd) r' \<noteq> [] \<and> take 1 (dropWhile (word_char ucd) r') = [q]
                       then Some (takeWhile (word_char ucd) r') else None)
                    else if takeWhile (word_char ucd) r \<noteq> [] then Some (takeWhile (word_char ucd) r)
                    else None))"

fun spec_detect :: "unicode \<Rightarrow> pystr \<Rightarrow> pystr option" where
  "spec_detect ucd [] = None"
| "spec_detect ucd (c # cs) =
     (case spec_marker ucd (c # cs) of Some w \<Rightarrow> Some w | None \<Rightarrow> spec_detect ucd cs)"

text \<open>An item with a group.\<close>

definition captures :: "item \<Rightarrow> bool" where
  "captures i = (case i of Group_Plus p \<Rightarrow> True | Group_Lazy p \<Rightarrow> True | _ \<Rightarrow> False)"

subsection \<open>Reading a memory\<close>

text \<open>
  The terms in which the buckets of \<open>get_recent_context\<close> are described. What the
  \<open>ingested_at\<close> of a memory parses to, when its metadata holds a non-empty string
  that parses: a reading and possibly an offset. Its source tag in lower case, when the
  tag is a string (\<open>unknown\<close> when there is none). The entry built for it. Whether the
  handler keeps it for the bucket of the given tags: the reading is at or after the
  cutoff.
\<close>

definition metadata_of :: "json \<Rightarrow> json" where
  "metadata_of m = (case py_get m ''metadata'' (JDict []) of Inr md \<Rightarrow> md | Inl e \<Rightarrow> JNull)"

definition parsed_timestamp :: "tool_world \<Rightarrow> json \<Rightarrow> (int \<times> int option) option" where
  "parsed_timestamp w m =
     (case py_get (metadata_of m) ''ingested_at'' JNull of
        Inr (JStr s) \<Rightarrow> if s = [] then None else fromisoformat w (str_replace s (u ''Z'') (u ''+00:00''))
      | _ \<Rightarrow> None)"






text \<open>
  The moments behind the readings, as microseconds of UTC: the moment of the call, read
  off the local clock; the moment a memory was ingested, a timestamp without an offset
  being taken on the local clock; whether the timestamp of a memory, if it names an
  offset, names that of the local clock; and whether a memory was ingested no more than
  the given number of hours before the call and has one of the given tags.
\<close>

definition now_moment :: "tool_world \<Rightarrow> int" where
  "now_moment w = now w - local_utcoffset w"

definition ingested_moment :: "tool_world \<Rightarrow> json \<Rightarrow> int option" where
  "ingested_moment w m =
     (case parsed_timestamp w m of
        None \<Rightarrow> None
      | Some (reading, None) \<Rightarrow> Some (reading - local_utcoffset w)
      | Some (reading, Some offset) \<Rightarrow> Some (reading - offset))"



subsection \<open>Concrete calls\<close>

text \<open>
  The Unicode data of Python 3.11 on the code points below 256, for texts that hold no
  others: the alphanumeric code points of Latin-1, none of which is a decimal digit, and
  the lower case of its capitals.
\<close>

definition latin1_lower :: "nat \<Rightarrow> nat" where
  "latin1_lower c = (if 0xC0 \<le> c \<and> c \<le> 0xDE \<and> c \<noteq> 0xD7 then c + 32 else ascii_lower c)"

definition example_unicode :: unicode where
  "example_unicode =
     \<lparr>isalnum = (\<lambda>c. c \<in> set [0xAA, 0xB2, 0xB3, 0xB5, 0xB9, 0xBA, 0xBC, 0xBD, 0xBE]
                     \<or> (0xC0 \<le> c \<and> c \<le> 0xFF \<and> c \<noteq> 0xD7 \<and> c \<noteq> 0xF7)),
      decimal = (\<lambda>c. None),
      str_lower = map latin1_lower\<rparr>"

text \<open>
  The \<open>datetime\<close> of the day with the given ordinal (\<open>date.toordinal()\<close>, 1 for
  0001-01-01) at the given hour, minute and second; 1 January 2026 has the ordinal 739617.
  \<open>hours_us\<close> is a number of hours in microseconds.
\<close>

definition datetime :: "int \<Rightarrow> int \<Rightarrow> int \<Rightarrow> int \<Rightarrow> int" where
  "datetime ordinal h m s = ((((ordinal - 1) * 24 + h) * 60 + m) * 60 + s) * 1000000"

definition hours_us :: "int \<Rightarrow> int" where
  "hours_us h = h * 3600 * 1000000"

text \<open>
  A world in which it is 12:00:00 UTC on 2 January 2026, the local clock is the given
  number of hours ahead of UTC, Backboard answers \<open>get_memories\<close> as given,
  \<open>fromisoformat\<close> is listed for the timestamps of the examples, and \<open>int\<close> has its
  default limit of 4300 digits.
\<close>

definition example_tools :: "int \<Rightarrow> json list api_result \<Rightarrow> tool_world" where
  "example_tools ahead answer =
     \<lparr>get_memories = (\<lambda>a. answer),
      now = datetime 739618 12 0 0 + hours_us ahead,
      local_utcoffset = hours_us ahead,
      fromisoformat = map_of
        [(u ''2026-01-02T11:00:00+00:00'', (datetime 739618 11 0 0, Some 0)),
         (u ''2026-01-01T06:00:00+00:00'', (datetime 739617 6 0 0, Some 0)),
         (u ''2026-01-02T13:00:00+00:00'', (datetime 739618 13 0 0, Some 0)),
         (u ''2026-01-01T12:00:00+00:00'', (datetime 739617 12 0 0, Some 0))],
      unicode_data = example_unicode,
      int_max_str_digits = 4300\<rparr>"

text \<open>A memory with a content, a source tag, an \<open>ingested_at\<close> string and an id.\<close>

definition memory :: "string \<Rightarrow> string \<Rightarrow> string \<Rightarrow> string \<Rightarrow> json" where
  "memory c src ts mid =
     JDict [(u ''content'', JStr (u c)),
            (u ''metadata'', JDict [(u ''source'', JStr (u src)), (u ''ingested_at'', JStr (u ts))]),
            (u ''memory_id'', JStr (u mid))]"

text \<open>
  The memories of the specification's example, one hour and thirty hours before
  12:00:00 UTC on 2 January 2026; and two memories at the edges of the window of 24
  hours, one hour after that time and exactly 24 hours before it.
\<close>

definition example_memories :: "json list" where
  "example_memories =
     [memory ''spec v2'' ''drive'' ''2026-01-02T11:00:00Z'' ''m1'',
      memory ''decision'' ''telegram'' ''2026-01-01T06:00:00Z'' ''m2'']"

definition edge_memories :: "json list" where
  "edge_memories =
     [memory ''spec v3'' ''drive'' ''2026-01-02T13:00:00Z'' ''m3'',
      memory ''vote'' ''telegram'' ''2026-01-01T12:00:00Z'' ''m4'']"

section \<open>Properties of the document poller\<close>

subsection \<open>Helper facts\<close>

lemma hexdigest_length: "length (hexdigest st) = 32"
  by (cases st) (simp add: hexdigest_def word_bytes_def hex_byte_def upt_rec)

lemma compute_content_hash_length: "length (compute_content_hash c) = 32"
  by (simp add: compute_content_hash_def hexdigest_length)

lemma compute_content_hash_nonempty [simp]:
  "compute_content_hash c \<noteq> []" "[] \<noteq> compute_content_hash c"
  using compute_content_hash_length [of c] by auto

lemma md5_of_empty_text: "compute_content_hash [] = ''d41d8cd98f00b204e9800998ecf8427e''"
  by code_simp

lemma print_fields [simp]:
  "drive_documents (print ls st) = drive_documents st"
  "effects (print ls st) = effects st"
  "printed (print ls st) = printed st @ ls"
  by (simp_all add: print_def)

lemma record_effect_fields [simp]:
  "drive_documents (record_effect e st) = drive_documents st"
  "effects (record_effect e st) = effects st @ [e]"
  "printed (record_effect e st) = printed st"
  by (simp_all add: record_effect_def)

lemma update_fields:
  "effects (update_drive_document fid h c st) = effects st @ [Update_drive_document fid h c]"
  "printed (update_drive_document fid h c st) = printed st"
  by (simp_all add: update_drive_document_def split: option.splits)

lemma create_fields:
  "effects (create_drive_document d st) = effects st @ [Create_drive_document d]"
  "printed (create_drive_document d st) = printed st"
  "drive_documents (create_drive_document d st) = (drive_documents st)(file_id d \<mapsto> d)"
  by (simp_all add: create_drive_document_def)


lemma forward_succeeds_iff:
  "forward_succeeds w cid md c =
     (\<exists>api_key k a t chunks r.
        lookup_client w cid = Some api_key \<and> fernet_decrypt w api_key = Returns k \<and>
        lookup_assistant w cid = Some a \<and> create_thread w k a = Returns t \<and>
        add_message w k t (formatted_content md c) = Returns chunks \<and>
        collect_output chunks = Inr r)"
proof (cases "lookup_client w cid")
  case None
  then show ?thesis by (simp add: forward_succeeds_def)
next
  case (Some api_key)
  note c1 = this
  show ?thesis
  proof (cases "fernet_decrypt w api_key")
    case (Raises e)
    with c1 show ?thesis by (simp add: forward_succeeds_def)
  next
    case (Returns k)
    note c2 = this
    show ?thesis
    proof (cases "lookup_assistant w cid")
      case None
      with c1 c2 show ?thesis by (simp add: forward_succeeds_def)
    next
      case (Some a)
      note c3 = this
      show ?thesis
      proof (cases "create_thread w k a")
        case (Raises e)
        with c1 c2 c3 show ?thesis by (simp add: forward_succeeds_def)
      next
        case (Returns t)
        note c4 = this
        show ?thesis
        proof (cases "add_message w k t (formatted_content md c)")
          case (Raises e)
          with c1 c2 c3 c4 show ?thesis by (simp add: forward_succeeds_def)
        next
          case (Returns chunks)
          with c1 c2 c3 c4 show ?thesis
            by (cases "collect_output chunks") (simp_all add: forward_succeeds_def)
        qed
      qed
    qed
  qed
qed

lemma send_success:
  assumes "forward_succeeds w cid md c"
  shows "\<exists>k a t. send_to_backboard w fid cid md c h ex st =
       ((case ex of
           Some d \<Rightarrow> update_drive_document fid h c
         | None \<Rightarrow> create_drive_document \<lparr>file_id = fid, client_id = cid, file_name = name md,
               content_hash = h, last_modified = modifiedTime md, content = c\<rparr>)
          (print [Print (''Successfully sent to Backboard: '' @ name md)]
            (record_effect (Add_message k t (formatted_content md c))
              (record_effect (Create_thread k a) st))), None)"
proof -
  from assms obtain api_key k a t chunks r where
    "lookup_client w cid = Some api_key" "fernet_decrypt w api_key = Returns k"
    "lookup_assistant w cid = Some a" "create_thread w k a = Returns t"
    "add_message w k t (formatted_content md c) = Returns chunks"
    "collect_output chunks = Inr r"
    unfolding forward_succeeds_iff by blast
  then have "send_to_backboard w fid cid md c h ex st =
       ((case ex of
           Some d \<Rightarrow> update_drive_document fid h c
         | None \<Rightarrow> create_drive_document \<lparr>file_id = fid, client_id = cid, file_name = name md,
               content_hash = h, last_modified = modifiedTime md, content = c\<rparr>)
          (print [Print (''Successfully sent to Backboard: '' @ name md)]
            (record_effect (Add_message k t (formatted_content md c))
              (record_effect (Create_thread k a) st))), None)"
    by (cases ex) (simp_all add: send_to_backboard_def Let_def)
  then show ?thesis by blast
qed

lemma send_failure:
  assumes "\<not> forward_succeeds w cid md c"
  shows "drive_documents (fst (send_to_backboard w fid cid md c h ex st)) = drive_documents st
     \<and> store_writes (effects (fst (send_to_backboard w fid cid md c h ex st))) = store_writes (effects st)
     \<and> forward_calls (effects (fst (send_to_backboard w fid cid md c h ex st))) \<le> forward_calls (effects st) + 1"
proof (cases "lookup_client w cid")
  case None
  then show ?thesis by (simp add: send_to_backboard_def)
next
  case (Some api_key)
  note c1 = this
  show ?thesis
  proof (cases "fernet_decrypt w api_key")
    case (Raises e)
    with c1 show ?thesis by (simp add: send_to_backboard_def)
  next
    case (Returns k)
    note c2 = this
    show ?thesis
    proof (cases "lookup_assistant w cid")
      case None
      with c1 c2 show ?thesis by (simp add: send_to_backboard_def)
    next
      case (Some a)
      note c3 = this
      show ?thesis
      proof (cases "create_thread w k a")
        case (Raises e)
        with c1 c2 c3 show ?thesis
          by (simp add: send_to_backboard_def Let_def store_writes_def forward_calls_def)
      next
        case (Returns t)
        note c4 = this
        show ?thesis
        proof (cases "add_message w k t (formatted_content md c)")
          case (Raises e)
          with c1 c2 c3 c4 show ?thesis
            by (simp add: send_to_backboard_def Let_def store_writes_def forward_calls_def)
        next
          case (Returns chunks)
          note c5 = this
          show ?thesis
          proof (cases "collect_output chunks")
            case (Inl e)
            with c1 c2 c3 c4 c5 show ?thesis
              by (simp add: send_to_backboard_def Let_def store_writes_def forward_calls_def)
          next
            case (Inr r)
            with c1 c2 c3 c4 c5 have "forward_succeeds w cid md c"
              unfolding forward_succeeds_iff by blast
            with assms show ?thesis by simp
          qed
        qed
      qed
    qed
  qed
qed

lemma process_document_fetched:
  assumes "files_get w fid = Returns md" and "files_export w fid = Returns c" and "c \<noteq> []"
  shows "process_document w fid cid st =
     (case classify (drive_documents st fid) c of
        Unchanged \<Rightarrow> (print [Print (''No changes detected in '' @ name md)] st, None)
      | verdict \<Rightarrow>
          (case send_to_backboard w fid cid md c (compute_content_hash c) (drive_documents st fid)
                  (print [Print ((if verdict = Changed then ''Changes detected in ''
                                  else ''Processing new document: '') @ name md)] st) of
             (st2, None) \<Rightarrow> (st2, None)
           | (st2, Some e) \<Rightarrow> (print [Print_exn ''Error sending to Backboard: '' e] st2, None)))"
  using assms
  by (cases "classify (drive_documents st fid) c")
     (simp_all add: process_document_def get_file_metadata_def get_document_content_def
        not_content_def lookup_drive_document_def Let_def)

lemma process_document_fetched_fst:
  assumes "files_get w fid = Returns md" and "files_export w fid = Returns c" and "c \<noteq> []"
    and "classify (drive_documents st fid) c \<noteq> Unchanged"
  shows "\<exists>ls. effects (fst (process_document w fid cid st)) =
              effects (fst (send_to_backboard w fid cid md c (compute_content_hash c) (drive_documents st fid) (print ls st)))
     \<and> drive_documents (fst (process_document w fid cid st)) =
              drive_documents (fst (send_to_backboard w fid cid md c (compute_content_hash c) (drive_documents st fid) (print ls st)))"
proof -
  let ?ls = "[Print ((if classify (drive_documents st fid) c = Changed then ''Changes detected in ''
                      else ''Processing new document: '') @ name md)]"
  let ?r = "send_to_backboard w fid cid md c (compute_content_hash c) (drive_documents st fid) (print ?ls st)"
  have "fst (process_document w fid cid st) =
          (case snd ?r of None \<Rightarrow> fst ?r
           | Some e \<Rightarrow> print [Print_exn ''Error sending to Backboard: '' e] (fst ?r))"
    using assms
    by (cases "classify (drive_documents st fid) c"; cases ?r; cases "snd ?r")
       (simp_all add: process_document_fetched)
  then have "effects (fst (process_document w fid cid st)) = effects (fst ?r)
     \<and> drive_documents (fst (process_document w fid cid st)) = drive_documents (fst ?r)"
    by (cases "snd ?r") simp_all
  then show ?thesis by blast
qed

lemma process_document_no_raise:
  assumes "files_get w fid = Returns md" and "files_export w fid = Returns c"
  shows "snd (process_document w fid cid st) = None"
proof (cases "c = []")
  case True
  with assms show ?thesis
    by (simp add: process_document_def get_file_metadata_def get_document_content_def not_content_def)
next
  case False
  let ?r = "\<lambda>ls. send_to_backboard w fid cid md c (compute_content_hash c) (drive_documents st fid) (print ls st)"
  show ?thesis
    using assms False
    by (cases "classify (drive_documents st fid) c")
       (simp_all add: process_document_fetched split: prod.splits option.splits)
qed

subsection \<open>The claims\<close>

text \<open>
  C1. The change detector is a function of the stored row and the new content alone:
  without a stored row the verdict is New; with a stored row it is Unchanged exactly
  when the stored hash equals the hash of the new content, and Changed exactly when it
  differs; there is no fourth verdict.
\<close>

theorem classify_trichotomy:
  "classify None c = New
   \<and> (classify (Some d) c = Unchanged) = (content_hash d = compute_content_hash c)
   \<and> (classify (Some d) c = Changed) = (content_hash d \<noteq> compute_content_hash c)
   \<and> classify (Some d) c \<noteq> New
   \<and> classify e c \<in> {New, Changed, Unchanged}"
  by (cases "classify e c") (simp_all add: classify_def)

text \<open>
  C2, as stated, fails: the registered document \<open>doc1\<close> has new content, the hash
  differs from the stored one, and Backboard answers the submission with an exception.
  One message is submitted and no write to the table follows.
\<close>

theorem failed_forward_writes_nothing:
  "content_hash (the (drive_documents registered_state ''doc1'')) \<noteq> compute_content_hash ''hello''
   \<and> forward_calls (effects (fst (process_document
         (scenario (\<lambda>f. Returns ''hello'') (\<lambda>c. Raises (OtherError ''503'')))
         ''doc1'' ''client1'' registered_state))) = 1
   \<and> store_writes (effects (fst (process_document
         (scenario (\<lambda>f. Returns ''hello'') (\<lambda>c. Raises (OtherError ''503'')))
         ''doc1'' ''client1'' registered_state))) = 0"
  by (simp add: process_document_def get_file_metadata_def get_document_content_def
      not_content_def lookup_drive_document_def classify_def send_to_backboard_def
      lookup_client_def lookup_assistant_def scenario_def registered_state_def
      forward_calls_def store_writes_def Let_def)

text \<open>
  C2, amended. For a document whose metadata and non-empty content were fetched: when
  the verdict is Unchanged, no call is made and the table is as before; when it is New
  or Changed and the forward goes through, the calls made are one thread creation, one
  message submission and one write to the table (an update when a row existed, an insert
  otherwise); when the forward does not go through, at most one message is submitted and
  the table is not written.
\<close>

theorem process_document_calls_and_writes:
  assumes "files_get w fid = Returns md" and "files_export w fid = Returns c" and "c \<noteq> []"
  shows
    "(classify (drive_documents st fid) c = Unchanged \<longrightarrow>
        effects (fst (process_document w fid cid st)) = effects st
      \<and> drive_documents (fst (process_document w fid cid st)) = drive_documents st)
   \<and> (classify (drive_documents st fid) c \<noteq> Unchanged \<and> forward_succeeds w cid md c \<longrightarrow>
        (\<exists>k a t. effects (fst (process_document w fid cid st)) =
           effects st @ [Create_thread k a, Add_message k t (formatted_content md c),
             (case drive_documents st fid of
                Some d \<Rightarrow> Update_drive_document fid (compute_content_hash c) c
              | None \<Rightarrow> Create_drive_document
                  \<lparr>file_id = fid, client_id = cid, file_name = name md,
                   content_hash = compute_content_hash c,
                   last_modified = modifiedTime md, content = c\<rparr>)])
      \<and> forward_calls (effects (fst (process_document w fid cid st))) = forward_calls (effects st) + 1
      \<and> store_writes (effects (fst (process_document w fid cid st))) = store_writes (effects st) + 1)
   \<and> (classify (drive_documents st fid) c \<noteq> Unchanged \<and> \<not> forward_succeeds w cid md c \<longrightarrow>
        drive_documents (fst (process_document w fid cid st)) = drive_documents st
      \<and> store_writes (effects (fst (process_document w fid cid st))) = store_writes (effects st)
      \<and> forward_calls (effects (fst (process_document w fid cid st))) \<le> forward_calls (effects st) + 1)"
proof (intro conjI impI)
  assume "classify (drive_documents st fid) c = Unchanged"
  then have "process_document w fid cid st = (print [Print (''No changes detected in '' @ name md)] st, None)"
    using assms by (simp add: process_document_fetched)
  then show "effects (fst (process_document w fid cid st)) = effects st"
    and "drive_documents (fst (process_document w fid cid st)) = drive_documents st"
    by simp_all
next
  assume h: "classify (drive_documents st fid) c \<noteq> Unchanged \<and> forward_succeeds w cid md c"
  from process_document_fetched_fst [OF assms, of st cid] h obtain ls where
    e: "effects (fst (process_document w fid cid st)) =
        effects (fst (send_to_backboard w fid cid md c (compute_content_hash c) (drive_documents st fid) (print ls st)))"
    by blast
  from h send_success [of w cid md c fid "compute_content_hash c" "drive_documents st fid" "print ls st"]
  obtain k a t where
    s: "effects (fst (send_to_backboard w fid cid md c (compute_content_hash c) (drive_documents st fid) (print ls st))) =
        effects st @ [Create_thread k a, Add_message k t (formatted_content md c),
             (case drive_documents st fid of
                Some d \<Rightarrow> Update_drive_document fid (compute_content_hash c) c
              | None \<Rightarrow> Create_drive_document
                  \<lparr>file_id = fid, client_id = cid, file_name = name md,
                   content_hash = compute_content_hash c,
                   last_modified = modifiedTime md, content = c\<rparr>)]"
    by (cases "drive_documents st fid") (auto simp: update_fields create_fields)
  from e s show "\<exists>k a t. effects (fst (process_document w fid cid st)) =
           effects st @ [Create_thread k a, Add_message k t (formatted_content md c),
             (case drive_documents st fid of
                Some d \<Rightarrow> Update_drive_document fid (compute_content_hash c) c
              | None \<Rightarrow> Create_drive_document
                  \<lparr>file_id = fid, client_id = cid, file_name = name md,
                   content_hash = compute_content_hash c,
                   last_modified = modifiedTime md, content = c\<rparr>)]"
    by auto
  from e s show "forward_calls (effects (fst (process_document w fid cid st))) = forward_calls (effects st) + 1"
    by (cases "drive_documents st fid") (simp_all add: forward_calls_def)
  from e s show "store_writes (effects (fst (process_document w fid cid st))) = store_writes (effects st) + 1"
    by (cases "drive_documents st fid") (simp_all add: store_writes_def)
next
  assume h: "classify (drive_documents st fid) c \<noteq> Unchanged \<and> \<not> forward_succeeds w cid md c"
  from process_document_fetched_fst [OF assms, of st cid] h obtain ls where
    e: "effects (fst (process_document w fid cid st)) =
        effects (fst (send_to_backboard w fid cid md c (compute_content_hash c) (drive_documents st fid) (print ls st)))"
    "drive_documents (fst (process_document w fid cid st)) =
        drive_documents (fst (send_to_backboard w fid cid md c (compute_content_hash c) (drive_documents st fid) (print ls st)))"
    by blast
  from h have f: "\<not> forward_succeeds w cid md c" by simp
  note s = send_failure [OF f, of fid "compute_content_hash c" "drive_documents st fid" "print ls st"]
  from e s show "drive_documents (fst (process_document w fid cid st)) = drive_documents st"
    and "store_writes (effects (fst (process_document w fid cid st))) = store_writes (effects st)"
    and "forward_calls (effects (fst (process_document w fid cid st))) \<le> forward_calls (effects st) + 1"
    by simp_all
qed

theorem process_document_calls_and_writes_witness:
  "effects (fst (process_document
       (scenario (\<lambda>f. Returns ''old notes'') (\<lambda>c. Raises (OtherError ''503'')))
       ''doc1'' ''client1'' ingested_state)) = []
   \<and> forward_calls (effects (fst (process_document
       (scenario (\<lambda>f. Returns ''hello'') (\<lambda>c. Returns [Chunk ''content_streaming'' (Some ''ok'')]))
       ''doc1'' ''client1'' registered_state))) = 1
   \<and> store_writes (effects (fst (process_document
       (scenario (\<lambda>f. Returns ''hello'') (\<lambda>c. Returns [Chunk ''content_streaming'' (Some ''ok'')]))
       ''doc1'' ''client1'' registered_state))) = 1
   \<and> drive_documents (fst (process_document
       (scenario (\<lambda>f. Returns ''hello'') (\<lambda>c. Raises (OtherError ''503'')))
       ''doc1'' ''client1'' registered_state)) = drive_documents registered_state"
proof -
  let ?md = "\<lparr>name = ''doc1'', modifiedTime = ''2026-02-02T09:30:00.000Z'', webViewLink = None\<rparr>"
  let ?w1 = "scenario (\<lambda>f. Returns ''old notes'') (\<lambda>c. Raises (OtherError ''503''))"
  let ?w2 = "scenario (\<lambda>f. Returns ''hello'') (\<lambda>c. Returns [Chunk ''content_streaming'' (Some ''ok'')])"
  let ?w3 = "scenario (\<lambda>f. Returns ''hello'') (\<lambda>c. Raises (OtherError ''503''))"
  have g1: "files_get ?w1 ''doc1'' = Returns ?md" and x1: "files_export ?w1 ''doc1'' = Returns ''old notes''"
    and g2: "files_get ?w2 ''doc1'' = Returns ?md" and x2: "files_export ?w2 ''doc1'' = Returns ''hello''"
    and g3: "files_get ?w3 ''doc1'' = Returns ?md" and x3: "files_export ?w3 ''doc1'' = Returns ''hello''"
    by (simp_all add: scenario_def)
  have n1: "''old notes'' \<noteq> []" and n2: "''hello'' \<noteq> []" by simp_all
  have u: "classify (drive_documents ingested_state ''doc1'') ''old notes'' = Unchanged"
    by (simp add: classify_def ingested_state_def)
  have ch: "classify (drive_documents registered_state ''doc1'') ''hello'' \<noteq> Unchanged"
    by (simp add: classify_def registered_state_def)
  have ok: "forward_succeeds ?w2 ''client1'' ?md ''hello''"
    by (simp add: forward_succeeds_def scenario_def lookup_client_def lookup_assistant_def)
  have ko: "\<not> forward_succeeds ?w3 ''client1'' ?md ''hello''"
    by (simp add: forward_succeeds_def scenario_def lookup_client_def lookup_assistant_def)
  from process_document_calls_and_writes [OF g1 x1 n1, of ingested_state "''client1''"] u
  have a: "effects (fst (process_document ?w1 ''doc1'' ''client1'' ingested_state)) = []"
    by (simp add: ingested_state_def)
  from process_document_calls_and_writes [OF g2 x2 n2, of registered_state "''client1''"] ch ok
  have b: "forward_calls (effects (fst (process_document ?w2 ''doc1'' ''client1'' registered_state))) = 1
     \<and> store_writes (effects (fst (process_document ?w2 ''doc1'' ''client1'' registered_state))) = 1"
    by (simp add: registered_state_def forward_calls_def store_writes_def)
  from process_document_calls_and_writes [OF g3 x3 n2, of registered_state "''client1''"] ch ko
  have c: "drive_documents (fst (process_document ?w3 ''doc1'' ''client1'' registered_state))
             = drive_documents registered_state"
    by simp
  from a b c show ?thesis by simp
qed

text \<open>
  On the update path the row written is the stored row with the hash and the content
  replaced: its \<open>last_modified\<close> stays, whatever \<open>modifiedTime\<close> Drive reports.
\<close>

lemma process_document_update_row:
  assumes "files_get w fid = Returns md" and "files_export w fid = Returns c" and "c \<noteq> []"
    and "drive_documents st fid = Some d" and "content_hash d \<noteq> compute_content_hash c"
    and "forward_succeeds w cid md c"
  shows "drive_documents (fst (process_document w fid cid st)) fid
           = Some (d\<lparr>content_hash := compute_content_hash c, content := c\<rparr>)"
proof -
  from assms(4,5) have v: "classify (drive_documents st fid) c = Changed"
    by (simp add: classify_def)
  from send_success [OF assms(6), of fid "compute_content_hash c" "Some d"
      "print [Print (''Changes detected in '' @ name md)] st"]
  obtain k a t where
    "send_to_backboard w fid cid md c (compute_content_hash c) (Some d)
        (print [Print (''Changes detected in '' @ name md)] st) =
       (update_drive_document fid (compute_content_hash c) c
          (print [Print (''Successfully sent to Backboard: '' @ name md)]
            (record_effect (Add_message k t (formatted_content md c))
              (record_effect (Create_thread k a)
                (print [Print (''Changes detected in '' @ name md)] st)))), None)"
    by auto
  with v assms(1-4) show ?thesis
    by (simp add: process_document_fetched update_drive_document_def)
qed

text \<open>A document whose export is the empty string is reported as a failed extraction.\<close>

lemma process_document_empty_content:
  assumes "files_get w fid = Returns md" and "files_export w fid = Returns []"
  shows "process_document w fid cid st =
           (print [Print (''Failed to extract content from file '' @ fid)] st, None)"
  using assms
  by (simp add: process_document_def get_file_metadata_def get_document_content_def not_content_def)

lemma old_notes_hash_differs:
  "compute_content_hash ''old notes'' \<noteq> compute_content_hash ''hello''"
  "compute_content_hash ''old notes'' \<noteq> compute_content_hash []"
  by code_simp+

text \<open>
  C6 at a concrete run: \<open>doc1\<close> was ingested with the content \<open>old notes\<close> and the
  modification time of 1 January; Drive now reports the content \<open>hello\<close> and the
  modification time of 2 February, and the forward goes through. The write requested is
  \<open>update_drive_document(file_id, content_hash, content)\<close>: it carries no modification
  time, and the row keeps the time of 1 January, whereas the insert of a new document
  passes \<open>last_modified\<close>.
\<close>

theorem changed_document_keeps_old_last_modified:
  "files_get (scenario (\<lambda>f. Returns ''hello'') (\<lambda>c. Returns [Chunk ''content_streaming'' (Some ''ok'')])) ''doc1''
     = Returns \<lparr>name = ''doc1'', modifiedTime = ''2026-02-02T09:30:00.000Z'', webViewLink = None\<rparr>
   \<and> classify (drive_documents ingested_state ''doc1'') ''hello'' = Changed
   \<and> effects (fst (process_document
        (scenario (\<lambda>f. Returns ''hello'') (\<lambda>c. Returns [Chunk ''content_streaming'' (Some ''ok'')]))
        ''doc1'' ''client1'' ingested_state))
     = [Create_thread ''sk-key'' ''asst1'',
        Add_message ''sk-key'' ''thread1''
          (formatted_content \<lparr>name = ''doc1'', modifiedTime = ''2026-02-02T09:30:00.000Z'', webViewLink = None\<rparr> ''hello''),
        Update_drive_document ''doc1'' (compute_content_hash ''hello'') ''hello'']
   \<and> drive_documents (fst (process_document
        (scenario (\<lambda>f. Returns ''hello'') (\<lambda>c. Returns [Chunk ''content_streaming'' (Some ''ok'')]))
        ''doc1'' ''client1'' ingested_state)) ''doc1''
     = Some \<lparr>file_id = ''doc1'', client_id = ''client1'', file_name = ''doc1'',
             content_hash = compute_content_hash ''hello'',
             last_modified = ''2026-01-01T08:00:00.000Z'', content = ''hello''\<rparr>"
  by (simp add: process_document_def get_file_metadata_def get_document_content_def
      not_content_def lookup_drive_document_def classify_def send_to_backboard_def
      lookup_client_def lookup_assistant_def scenario_def ingested_state_def
      update_drive_document_def record_effect_def print_def Let_def old_notes_hash_differs)

text \<open>
  C9 at a concrete run: \<open>doc1\<close> was ingested with the content \<open>old notes\<close> and its
  content is now the empty string. The change detector would answer Changed, but
  \<open>process_document\<close> takes the empty string for a failed fetch (\<open>if not content\<close>,
  where \<open>get_document_content\<close> returns \<open>None\<close> for a failure): it prints the failure
  line and returns, with no call made and the table as before.
\<close>

theorem empty_content_is_skipped:
  "classify (drive_documents ingested_state ''doc1'') [] = Changed
   \<and> process_document
        (scenario (\<lambda>f. Returns []) (\<lambda>c. Returns [Chunk ''content_streaming'' (Some ''ok'')]))
        ''doc1'' ''client1'' ingested_state
     = (ingested_state\<lparr>printed := [Print ''Failed to extract content from file doc1'']\<rparr>, None)"
  by (simp add: process_document_def get_file_metadata_def get_document_content_def
      not_content_def classify_def scenario_def ingested_state_def print_def
      old_notes_hash_differs)

lemma poll_cycle_append:
  "poll_cycle w (xs @ ys) cid st =
     (case poll_cycle w xs cid st of
        (st', None) \<Rightarrow> poll_cycle w ys cid st'
      | (st', Some e) \<Rightarrow> (st', Some e))"
  by (induction xs arbitrary: st) (auto split: prod.splits option.splits)

text \<open>
  C7. In a cycle that reaches document A and fetches its metadata and content,
  \<open>process_document\<close> returns without an exception whatever the forward of A does; an
  exception raised by the forward is caught and printed; and the cycle goes on with the
  documents after A, each processed from the state A left.
\<close>

theorem forward_failure_does_not_stop_cycle:
  assumes "snd (poll_cycle w pre cid st) = None"
    and "files_get w a = Returns md" and "files_export w a = Returns c"
  shows "snd (process_document w a cid st_a) = None
   \<and> poll_cycle w (pre @ a # bs) cid st =
       poll_cycle w bs cid (fst (process_document w a cid (fst (poll_cycle w pre cid st))))
   \<and> (\<forall>e st2. c \<noteq> [] \<and> classify (drive_documents st_a a) c \<noteq> Unchanged
        \<and> send_to_backboard w a cid md c (compute_content_hash c) (drive_documents st_a a)
             (print [Print ((if classify (drive_documents st_a a) c = Changed then ''Changes detected in ''
                             else ''Processing new document: '') @ name md)] st_a) = (st2, Some e)
        \<longrightarrow> process_document w a cid st_a = (print [Print_exn ''Error sending to Backboard: '' e] st2, None))"
proof (intro conjI allI impI)
  show "snd (process_document w a cid st_a) = None"
    using assms(2,3) by (rule process_document_no_raise)
next
  have "snd (process_document w a cid (fst (poll_cycle w pre cid st))) = None"
    using assms(2,3) by (rule process_document_no_raise)
  then show "poll_cycle w (pre @ a # bs) cid st =
       poll_cycle w bs cid (fst (process_document w a cid (fst (poll_cycle w pre cid st))))"
    using assms(1)
    by (cases "poll_cycle w pre cid st"; cases "process_document w a cid (fst (poll_cycle w pre cid st))")
       (simp add: poll_cycle_append)
next
  fix e st2
  assume "c \<noteq> [] \<and> classify (drive_documents st_a a) c \<noteq> Unchanged
        \<and> send_to_backboard w a cid md c (compute_content_hash c) (drive_documents st_a a)
             (print [Print ((if classify (drive_documents st_a a) c = Changed then ''Changes detected in ''
                             else ''Processing new document: '') @ name md)] st_a) = (st2, Some e)"
  then show "process_document w a cid st_a = (print [Print_exn ''Error sending to Backboard: '' e] st2, None)"
    using assms(2,3)
    by (cases "classify (drive_documents st_a a) c") (simp_all add: process_document_fetched)
qed

theorem forward_failure_does_not_stop_cycle_witness:
  "effects (fst (poll_cycle
      (scenario (\<lambda>f. Returns (''text of '' @ f))
         (\<lambda>c. if c = formatted_content \<lparr>name = ''docA'', modifiedTime = ''2026-02-02T09:30:00.000Z'', webViewLink = None\<rparr> ''text of docA''
              then Raises (OtherError ''503'') else Returns [Chunk ''content_streaming'' (Some ''ok'')]))
      [''docA'', ''docB''] ''client1'' empty_state))
   = [Create_thread ''sk-key'' ''asst1'',
      Add_message ''sk-key'' ''thread1''
        (formatted_content \<lparr>name = ''docA'', modifiedTime = ''2026-02-02T09:30:00.000Z'', webViewLink = None\<rparr> ''text of docA''),
      Create_thread ''sk-key'' ''asst1'',
      Add_message ''sk-key'' ''thread1''
        (formatted_content \<lparr>name = ''docB'', modifiedTime = ''2026-02-02T09:30:00.000Z'', webViewLink = None\<rparr> ''text of docB''),
      Create_drive_document
        \<lparr>file_id = ''docB'', client_id = ''client1'', file_name = ''docB'',
         content_hash = compute_content_hash ''text of docB'',
         last_modified = ''2026-02-02T09:30:00.000Z'', content = ''text of docB''\<rparr>]"
proof -
  let ?mdA = "\<lparr>name = ''docA'', modifiedTime = ''2026-02-02T09:30:00.000Z'', webViewLink = None\<rparr>"
  let ?w = "scenario (\<lambda>f. Returns (''text of '' @ f))
         (\<lambda>c. if c = formatted_content ?mdA ''text of docA''
              then Raises (OtherError ''503'') else Returns [Chunk ''content_streaming'' (Some ''ok'')])"
  have p: "snd (poll_cycle ?w [] ''client1'' empty_state) = None" by simp
  have g: "files_get ?w ''docA'' = Returns ?mdA" and x: "files_export ?w ''docA'' = Returns ''text of docA''"
    by (simp_all add: scenario_def)
  from forward_failure_does_not_stop_cycle [OF p g x, of empty_state "[''docB'']"]
  have "poll_cycle ?w [''docA'', ''docB''] ''client1'' empty_state =
        poll_cycle ?w [''docB''] ''client1'' (fst (process_document ?w ''docA'' ''client1'' empty_state))"
    by simp
  then show ?thesis
    by (simp add: process_document_def get_file_metadata_def get_document_content_def
      not_content_def lookup_drive_document_def classify_def send_to_backboard_def
      lookup_client_def lookup_assistant_def scenario_def empty_state_def formatted_content_def
      create_drive_document_def record_effect_def print_def Let_def)
qed
section \<open>Properties of the tool layer\<close>

subsection \<open>The import\<close>

text \<open>
  The import of tools.py as it is raises \<open>SyntaxError\<close>, whatever function is then
  called and with whatever arguments.
\<close>

lemma import_tools_fails:
  "import_tools = Some (SyntaxError ''non-default argument follows default argument'')"
  by (simp add: import_tools_def tools_defs_def)

lemma tools_call_fails:
  "tools_call r = Inl (SyntaxError ''non-default argument follows default argument'')"
  by (simp add: tools_call_def import_tools_fails)

subsection \<open>The matcher on the invocation pattern\<close>

lemma quote_not_word [simp]: "is_quote q \<Longrightarrow> \<not> word_char ucd q"
  by (auto simp: is_quote_def word_char_def ascii_digit_def)

lemma at_not_word [simp]: "\<not> word_char ucd 64" "\<not> is_quote 64"
  by (simp_all add: is_quote_def word_char_def ascii_digit_def)

lemma re_match_Opt_last [simp]: "re_match [Opt p] s g = Some g"
  by (cases s) simp_all

lemma first_Some_map_Some:
  "first_Some (map (\<lambda>n. Some (f n)) xs) = (case xs of [] \<Rightarrow> None | x # _ \<Rightarrow> Some (f x))"
  by (cases xs) simp_all

lemma rev_run_lengths:
  "rev (run_lengths p s) =
     (if takeWhile p s = [] then [] else length (takeWhile p s) # rev [1..<length (takeWhile p s)])"
  by (cases "takeWhile p s") (simp_all add: run_lengths_def)

lemma group_then_opt:
  "re_match [Group_Plus p, Opt q] s g = (if takeWhile p s = [] then None else Some (takeWhile p s))"
proof -
  have "re_match [Group_Plus p, Opt q] s g =
          first_Some (map (\<lambda>n. Some (take n s)) (rev (run_lengths p s)))"
    by (simp only: re_match.simps(5) re_match_Opt_last)
  then show ?thesis
    by (simp add: first_Some_map_Some rev_run_lengths takeWhile_eq_take [symmetric])
qed

lemma tool_match_at:
  "re_match (tool_pattern ucd) s [] =
     (case s of
        [] \<Rightarrow> None
      | c # r \<Rightarrow>
          if c \<noteq> 64 then None
          else (case r of
                  [] \<Rightarrow> None
                | q # r' \<Rightarrow>
                    if is_quote q then
                      (if takeWhile (word_char ucd) r' \<noteq> [] then Some (takeWhile (word_char ucd) r') else None)
                    else if takeWhile (word_char ucd) r \<noteq> [] then Some (takeWhile (word_char ucd) r)
                    else None))"
proof (cases s)
  case Nil
  then show ?thesis by (simp add: tool_pattern_def)
next
  case (Cons c r)
  show ?thesis
  proof (cases r)
    case Nil
    with Cons show ?thesis
      by (simp add: tool_pattern_def group_then_opt del: re_match.simps(5))
  next
    case (Cons q r')
    with \<open>s = c # r\<close> show ?thesis
      by (simp add: tool_pattern_def group_then_opt del: re_match.simps(5))
  qed
qed

lemma takeWhile_stop: "\<not> P a \<Longrightarrow> takeWhile P (xs @ a # ys) = takeWhile P xs"
  by (induction xs) simp_all

lemma tool_match_before_at:
  assumes "s \<noteq> []"
  shows "re_match (tool_pattern ucd) (s @ 64 # rest) [] = re_match (tool_pattern ucd) s []"
proof (cases s)
  case Nil
  with assms show ?thesis by simp
next
  case (Cons c r)
  show ?thesis
  proof (cases r)
    case Nil
    with Cons show ?thesis by (simp add: tool_match_at)
  next
    case (Cons q r')
    with \<open>s = c # r\<close> show ?thesis
      using takeWhile_stop [of "word_char ucd" "64::nat" r' rest]
        takeWhile_stop [of "word_char ucd" "64::nat" "q # r'" rest]
      by (simp add: tool_match_at)
  qed
qed

lemma tool_match_Some_at:
  "re_match (tool_pattern ucd) s [] = Some w \<Longrightarrow> \<exists>r. s = 64 # r"
  by (cases s) (simp_all add: tool_match_at split: if_splits)

lemma tool_match_Nil [simp]: "re_match (tool_pattern ucd) [] [] = None"
  by (simp add: tool_match_at)

lemma tool_search_Nil [simp]: "re_search (tool_pattern ucd) [] = None"
  by simp

lemma tool_search_append_at:
  "re_search (tool_pattern ucd) (pre @ 64 # rest) =
     (case re_search (tool_pattern ucd) pre of
        Some g \<Rightarrow> Some g
      | None \<Rightarrow> re_search (tool_pattern ucd) (64 # rest))"
proof (induction pre)
  case Nil
  show ?case by (simp del: re_search.simps(2))
next
  case (Cons c cs)
  have "re_match (tool_pattern ucd) ((c # cs) @ 64 # rest) [] = re_match (tool_pattern ucd) (c # cs) []"
    by (rule tool_match_before_at) simp
  with Cons show ?case
    by (cases "re_match (tool_pattern ucd) (c # cs) []") simp_all
qed

lemma tool_search_Some_split:
  "re_search (tool_pattern ucd) t = Some w \<Longrightarrow>
     \<exists>pre rest. t = pre @ rest \<and> re_search (tool_pattern ucd) pre = None \<and> re_match (tool_pattern ucd) rest [] = Some w"
proof (induction t)
  case Nil
  then show ?case by simp
next
  case (Cons c cs)
  show ?case
  proof (cases "re_match (tool_pattern ucd) (c # cs) []")
    case (Some g)
    with Cons.prems have "g = w" by simp
    with Some have "c # cs = [] @ (c # cs) \<and> re_search (tool_pattern ucd) [] = None
        \<and> re_match (tool_pattern ucd) (c # cs) [] = Some w" by simp
    then show ?thesis by blast
  next
    case None
    with Cons.prems have "re_search (tool_pattern ucd) cs = Some w" by simp
    from Cons.IH [OF this] obtain pre rest where
      d: "cs = pre @ rest" "re_search (tool_pattern ucd) pre = None" "re_match (tool_pattern ucd) rest [] = Some w"
      by blast
    from d(3) obtain r where r: "rest = 64 # r" using tool_match_Some_at by blast
    have "re_match (tool_pattern ucd) ((c # pre) @ 64 # r) [] = re_match (tool_pattern ucd) (c # pre) []"
      by (rule tool_match_before_at) simp
    with None d(1) r have "re_match (tool_pattern ucd) (c # pre) [] = None" by simp
    with d(2) have "re_search (tool_pattern ucd) (c # pre) = None" by simp
    with d have "c # cs = (c # pre) @ rest \<and> re_search (tool_pattern ucd) (c # pre) = None
        \<and> re_match (tool_pattern ucd) rest [] = Some w" by simp
    then show ?thesis by blast
  qed
qed


lemma takeWhile_run:
  "list_all P w \<Longrightarrow> post = [] \<or> \<not> P (hd post) \<Longrightarrow> takeWhile P (w @ post) = w"
proof (induction w)
  case Nil
  then show ?case by (cases post) auto
next
  case (Cons a w)
  then show ?case by simp
qed

lemma tool_match_quoted:
  assumes "q = [] \<or> q = [34] \<or> q = [39]" and "w \<noteq> []" and "list_all (word_char ucd) w"
    and "post = [] \<or> \<not> word_char ucd (hd post)"
  shows "re_match (tool_pattern ucd) (64 # q @ w @ post) [] = Some w"
proof -
  from assms(2) obtain c w' where w: "w = c # w'" by (cases w) auto
  with assms(3) have c: "word_char ucd c" by simp
  then have nq: "\<not> is_quote c" by (auto dest: quote_not_word)
  have tw: "takeWhile (word_char ucd) (w @ post) = w" using assms(3,4) by (rule takeWhile_run)
  from assms(1) show ?thesis
  proof (elim disjE)
    assume "q = []"
    with w nq tw show ?thesis by (simp add: tool_match_at)
  next
    assume "q = [34]"
    with w tw show ?thesis by (simp add: tool_match_at is_quote_def)
  next
    assume "q = [39]"
    with w tw show ?thesis by (simp add: tool_match_at is_quote_def)
  qed
qed

lemma tool_match_shape:
  assumes "re_match (tool_pattern ucd) s [] = Some w"
  shows "\<exists>q post. s = 64 # q @ w @ post \<and> (q = [] \<or> q = [34] \<or> q = [39])
           \<and> w \<noteq> [] \<and> list_all (word_char ucd) w \<and> (post = [] \<or> \<not> word_char ucd (hd post))"
proof -
  from assms obtain r where s: "s = 64 # r" using tool_match_Some_at by blast
  have tw: "\<And>x. list_all (word_char ucd) (takeWhile (word_char ucd) x)"
    by (simp add: list_all_iff) (metis set_takeWhileD)
  have dw: "\<And>x. dropWhile (word_char ucd) x = [] \<or> \<not> word_char ucd (hd (dropWhile (word_char ucd) x))"
    using hd_dropWhile by blast
  show ?thesis
  proof (cases r)
    case Nil
    with s assms show ?thesis by (simp add: tool_match_at)
  next
    case (Cons q r')
    show ?thesis
    proof (cases "is_quote q")
      case True
      with s Cons assms have w: "w = takeWhile (word_char ucd) r'" "w \<noteq> []"
        by (auto simp: tool_match_at split: if_splits)
      have "s = 64 # [q] @ w @ dropWhile (word_char ucd) r'"
        using s Cons w by simp
      moreover have "[q] = [34] \<or> [q] = [39]" using True by (simp add: is_quote_def)
      ultimately show ?thesis using w tw [of r'] dw [of r'] by blast
    next
      case False
      with s Cons assms have w: "w = takeWhile (word_char ucd) r" "w \<noteq> []"
        by (auto simp: tool_match_at split: if_splits)
      have "s = 64 # [] @ w @ dropWhile (word_char ucd) r"
        using s w by simp
      then show ?thesis using w tw [of r] dw [of r] by blast
    qed
  qed
qed

lemma detect_Some_iff:
  "(detect_tool_invocation ucd t = Some w) =
     (\<exists>pre q post. t = pre @ [64] @ q @ w @ post
        \<and> detect_tool_invocation ucd pre = None
        \<and> (q = [] \<or> q = [34] \<or> q = [39])
        \<and> w \<noteq> [] \<and> list_all (word_char ucd) w
        \<and> (post = [] \<or> \<not> word_char ucd (hd post)))"
proof
  assume "detect_tool_invocation ucd t = Some w"
  then have "re_search (tool_pattern ucd) t = Some w" by (simp add: detect_tool_invocation_def)
  from tool_search_Some_split [OF this] obtain pre rest where
    d: "t = pre @ rest" "re_search (tool_pattern ucd) pre = None" "re_match (tool_pattern ucd) rest [] = Some w"
    by blast
  from tool_match_shape [OF d(3)] obtain q post where
    "rest = 64 # q @ w @ post" "q = [] \<or> q = [34] \<or> q = [39]"
    "w \<noteq> []" "list_all (word_char ucd) w" "post = [] \<or> \<not> word_char ucd (hd post)"
    by blast
  with d have "t = pre @ [64] @ q @ w @ post
        \<and> detect_tool_invocation ucd pre = None
        \<and> (q = [] \<or> q = [34] \<or> q = [39])
        \<and> w \<noteq> [] \<and> list_all (word_char ucd) w
        \<and> (post = [] \<or> \<not> word_char ucd (hd post))"
    by (simp add: detect_tool_invocation_def)
  then show "\<exists>pre q post. t = pre @ [64] @ q @ w @ post
        \<and> detect_tool_invocation ucd pre = None
        \<and> (q = [] \<or> q = [34] \<or> q = [39])
        \<and> w \<noteq> [] \<and> list_all (word_char ucd) w
        \<and> (post = [] \<or> \<not> word_char ucd (hd post))"
    by blast
next
  assume "\<exists>pre q post. t = pre @ [64] @ q @ w @ post
        \<and> detect_tool_invocation ucd pre = None
        \<and> (q = [] \<or> q = [34] \<or> q = [39])
        \<and> w \<noteq> [] \<and> list_all (word_char ucd) w
        \<and> (post = [] \<or> \<not> word_char ucd (hd post))"
  then obtain pre q post where
    t: "t = pre @ [64] @ q @ w @ post" and p: "re_search (tool_pattern ucd) pre = None"
    and q: "q = [] \<or> q = [34] \<or> q = [39]" and w: "w \<noteq> []" "list_all (word_char ucd) w"
    and post: "post = [] \<or> \<not> word_char ucd (hd post)"
    by (auto simp: detect_tool_invocation_def)
  have m: "re_match (tool_pattern ucd) (64 # q @ w @ post) [] = Some w"
    using q w post by (rule tool_match_quoted)
  have "re_search (tool_pattern ucd) (pre @ 64 # q @ w @ post) = re_search (tool_pattern ucd) (64 # q @ w @ post)"
    using p by (simp add: tool_search_append_at del: re_search.simps(2))
  with m t show "detect_tool_invocation ucd t = Some w"
    by (simp add: detect_tool_invocation_def)
qed


lemma spec_detect_no_at: "64 \<notin> set s \<Longrightarrow> spec_detect ucd s = None"
  by (induction s) (auto simp: spec_marker_def)

lemma word_chars_no_at: "list_all (word_char ucd) w \<Longrightarrow> 64 \<notin> set w"
  by (auto simp: list_all_iff)

lemma dropWhile_run:
  "list_all P w \<Longrightarrow> post = [] \<or> \<not> P (hd post) \<Longrightarrow> dropWhile P (w @ post) = post"
proof (induction w)
  case Nil
  then show ?case by (cases post) auto
next
  case (Cons a w)
  then show ?case by simp
qed

subsection \<open>The claims on detection\<close>

text \<open>A non-ASCII letter belongs to the identifier.\<close>

lemma detect_non_ascii_identifier:
  "detect_tool_invocation example_unicode (u ''@caf'' @ [0xE9] @ u '' now'') = Some (u ''caf'' @ [0xE9])"
  by code_simp




text \<open>
  The body of the detector goes beyond the stated grammar: for every non-empty
  identifier \<open>w\<close> of word characters it returns \<open>w\<close> on \<open>@"w'\<close> and on \<open>@'w\<close>,
  neither of which is an invocation of the stated grammar, and on every text \<open>u@wv\<close> in
  which nothing is detected in \<open>u\<close> and \<open>v\<close> does not go on with a word character.
\<close>

lemma detect_beyond_grammar:
  assumes "w \<noteq> []" and "list_all (word_char ucd) w"
  shows "detect_tool_invocation ucd ([64, 34] @ w @ [39]) = Some w
   \<and> spec_detect ucd ([64, 34] @ w @ [39]) = None
   \<and> detect_tool_invocation ucd ([64, 39] @ w) = Some w
   \<and> spec_detect ucd ([64, 39] @ w) = None
   \<and> (detect_tool_invocation ucd pre = None \<and> (v = [] \<or> \<not> word_char ucd (hd v))
        \<longrightarrow> detect_tool_invocation ucd (pre @ [64] @ w @ v) = Some w)"
proof (intro conjI impI)
  have sq: "\<not> word_char ucd 39" "is_quote 39" "is_quote 34"
    by (simp_all add: word_char_def ascii_digit_def is_quote_def)
  have "re_match (tool_pattern ucd) (64 # [34] @ w @ [39]) [] = Some w"
    using assms sq by (intro tool_match_quoted) simp_all
  then show "detect_tool_invocation ucd ([64, 34] @ w @ [39]) = Some w"
    by (simp add: detect_tool_invocation_def)
  have "re_match (tool_pattern ucd) (64 # [39] @ w @ []) [] = Some w"
    using assms by (intro tool_match_quoted) simp_all
  then show "detect_tool_invocation ucd ([64, 39] @ w) = Some w"
    by (simp add: detect_tool_invocation_def)
  have e: "[39] = [] \<or> \<not> word_char ucd (hd [39])" and e': "[] = [] \<or> \<not> word_char ucd (hd [])"
    using sq by simp_all
  have tw: "takeWhile (word_char ucd) (w @ [39]) = w" "dropWhile (word_char ucd) (w @ [39]) = [39]"
    using takeWhile_run [OF assms(2) e] dropWhile_run [OF assms(2) e] by blast+
  have tw': "takeWhile (word_char ucd) w = w" "dropWhile (word_char ucd) w = []"
    using takeWhile_run [OF assms(2) e'] dropWhile_run [OF assms(2) e'] by simp_all
  have na: "64 \<notin> set (34 # w @ [39])" "64 \<notin> set (39 # w)"
    using word_chars_no_at [OF assms(2)] by simp_all
  show "spec_detect ucd ([64, 34] @ w @ [39]) = None"
    using spec_detect_no_at [OF na(1)] sq by (simp add: spec_marker_def tw)
  show "spec_detect ucd ([64, 39] @ w) = None"
    using spec_detect_no_at [OF na(2)] sq by (simp add: spec_marker_def tw')
next
  assume h: "detect_tool_invocation ucd pre = None \<and> (v = [] \<or> \<not> word_char ucd (hd v))"
  with assms have "pre @ [64] @ w @ v = pre @ [64] @ [] @ w @ v
        \<and> detect_tool_invocation ucd pre = None
        \<and> ([] = [] \<or> [] = [34::nat] \<or> [] = [39::nat])
        \<and> w \<noteq> [] \<and> list_all (word_char ucd) w
        \<and> (v = [] \<or> \<not> word_char ucd (hd v))"
    by simp
  then show "detect_tool_invocation ucd (pre @ [64] @ w @ v) = Some w"
    unfolding detect_Some_iff by blast
qed

text \<open>
  C10 at a concrete call: the body of \<open>detect_tool_invocation\<close> gives \<open>example\<close> on
  \<open>user@example.com\<close> and \<open>create_file\<close> on \<open>@"create_file'\<close> and on
  \<open>@'create_file\<close>, but a caller of the module as it is gets none of these: the import
  raises \<open>SyntaxError\<close> for the parameter list of \<open>handle_get_recent_context\<close>.
\<close>

theorem detector_is_not_importable:
  "detect_tool_invocation example_unicode (u ''user@example.com'') = Some (u ''example'')
   \<and> detect_tool_invocation example_unicode ([64, 34] @ u ''create_file'' @ [39]) = Some (u ''create_file'')
   \<and> detect_tool_invocation example_unicode ([64, 39] @ u ''create_file'') = Some (u ''create_file'')
   \<and> tools_call (Inr (detect_tool_invocation example_unicode (u ''user@example.com'')))
       = Inl (SyntaxError ''non-default argument follows default argument'')"
proof -
  have "detect_tool_invocation example_unicode (u ''user@example.com'') = Some (u ''example'')"
    by code_simp
  moreover have "detect_tool_invocation example_unicode ([64, 34] @ u ''create_file'' @ [39]) = Some (u ''create_file'')"
    by code_simp
  moreover have "detect_tool_invocation example_unicode ([64, 39] @ u ''create_file'') = Some (u ''create_file'')"
    by code_simp
  ultimately show ?thesis by (simp add: tools_call_fails)
qed

subsection \<open>The matcher on the parameter patterns\<close>

lemma first_Some_map_elem:
  "first_Some (map f xs) = Some x \<Longrightarrow> \<exists>n. n \<in> set xs \<and> f n = Some x"
proof (induction xs)
  case Nil
  then show ?case by simp
next
  case (Cons a xs)
  then show ?case by (cases "f a") auto
qed

lemma run_lengths_take:
  "n \<in> set (run_lengths p s) \<Longrightarrow> take n s \<noteq> []"
proof -
  assume "n \<in> set (run_lengths p s)"
  then have "1 \<le> n" "n \<le> length (takeWhile p s)" by (auto simp: run_lengths_def)
  moreover have "length (takeWhile p s) \<le> length s" by (rule length_takeWhile_le)
  ultimately show ?thesis by (cases s) auto
qed

lemma captures_simps [simp]:
  "\<not> captures (Lit p)" "\<not> captures (Opt p)" "\<not> captures (Plus p)"
  "captures (Group_Plus p)" "captures (Group_Lazy p)"
  by (simp_all add: captures_def)

lemma re_match_group_nonempty:
  "re_match r s g = Some x \<Longrightarrow> g \<noteq> [] \<or> list_ex captures r \<Longrightarrow> x \<noteq> []"
proof (induction r s g arbitrary: x rule: re_match.induct)
  case (1 s g)
  then show ?case by simp
next
  case (2 p r s g)
  then show ?case by (auto split: list.splits if_splits)
next
  case (3 p r s g)
  then show ?case by (auto split: list.splits if_splits option.splits)
next
  case (4 p r s g)
  from "4.prems"(1) obtain n where n: "n \<in> set (rev (run_lengths p s))"
    "re_match r (drop n s) g = Some x"
    using first_Some_map_elem [of "\<lambda>n. re_match r (drop n s) g" "rev (run_lengths p s)" x] by auto
  from "4.prems"(2) have "g \<noteq> [] \<or> list_ex captures r" by simp
  with "4.IH" [OF n(1) n(2)] show ?case by simp
next
  case (5 p r s g)
  from "5.prems"(1) obtain n where n: "n \<in> set (rev (run_lengths p s))"
    "re_match r (drop n s) (take n s) = Some x"
    using first_Some_map_elem [of "\<lambda>n. re_match r (drop n s) (take n s)" "rev (run_lengths p s)" x] by auto
  from n(1) have "take n s \<noteq> []" using run_lengths_take [of n p s] by simp
  with "5.IH" [OF n(1) n(2)] show ?case by simp
next
  case (6 p r s g)
  from "6.prems"(1) obtain n where n: "n \<in> set (run_lengths p s)"
    "re_match r (drop n s) (take n s) = Some x"
    using first_Some_map_elem [of "\<lambda>n. re_match r (drop n s) (take n s)" "run_lengths p s" x] by auto
  from n(1) have "take n s \<noteq> []" by (rule run_lengths_take)
  with "6.IH" [OF n(1) n(2)] show ?case by simp
qed

lemma re_search_is_match:
  "re_search pat t = Some x \<Longrightarrow> \<exists>s. re_match pat s [] = Some x"
proof (induction t)
  case Nil
  then show ?case by auto
next
  case (Cons c cs)
  then show ?case by (cases "re_match pat (c # cs) []") auto
qed

lemma content_match_nonempty:
  assumes "re_search content_pattern t = Some b"
  shows "b \<noteq> []"
proof -
  from re_search_is_match [OF assms] obtain s where "re_match content_pattern s [] = Some b" by blast
  moreover have "list_ex captures content_pattern"
    by (simp add: content_pattern_def ignore_case_def u_def)
  ultimately show ?thesis using re_match_group_nonempty by blast
qed

text \<open>A captured run of digits at the end of a pattern takes every digit of the run.\<close>

lemma group_last:
  "re_match [Group_Plus p] s g = (if takeWhile p s = [] then None else Some (takeWhile p s))"
proof -
  have "re_match [Group_Plus p] s g =
          first_Some (map (\<lambda>n. Some (take n s)) (rev (run_lengths p s)))"
    by simp
  then show ?thesis
    by (simp add: first_Some_map_Some rev_run_lengths takeWhile_eq_take [symmetric])
qed

lemma takeWhile_all: "list_all p ds \<Longrightarrow> takeWhile p ds = ds"
  by (induction ds) simp_all

lemma hours_match_digits:
  assumes "ds \<noteq> []" and "list_all ascii_digit ds"
  shows "re_search (hours_pattern ucd) (u ''hours: '' @ ds) = Some ds"
proof -
  from assms obtain d ds' where ds: "ds = d # ds'" by (cases ds) auto
  with assms(2) have d: "ascii_digit d" by simp
  then have dl: "d < 128" "\<not> colon_or_space d"
    by (auto simp: ascii_digit_def colon_or_space_def is_space_def)
  have all: "list_all (is_digit ucd) ds"
    using assms(2) by (induction ds) (auto simp: is_digit_def ascii_digit_def)
  have tw: "takeWhile (is_digit ucd) ds = ds" using all by (rule takeWhile_all)
  have g: "re_match [Group_Plus (is_digit ucd)] ds g = Some ds" for g
    unfolding group_last tw using assms(1) by simp
  have sp: "colon_or_space 58" "colon_or_space 32"
    by (simp_all add: colon_or_space_def is_space_def)
  have rl: "rev (run_lengths colon_or_space (58 # 32 # ds)) = [2, 1]"
    using dl sp by (simp add: run_lengths_def ds)
  have p: "re_match [Plus colon_or_space, Group_Plus (is_digit ucd)] (58 # 32 # ds) [] = Some ds"
    using g [of "[]"] by (simp add: rl del: re_match.simps(5))
  have "re_match (hours_pattern ucd) (u ''hours: '' @ ds) [] = Some ds"
    using p by (simp add: hours_pattern_def ignore_case_def u_def ignore_case_eq_def ascii_lower_def
        del: re_match.simps(4) re_match.simps(5))
  then show ?thesis by (simp add: u_def)
qed

subsection \<open>The claims on routing\<close>

text \<open>
  The body of the \<open>create_file\<close> branch, for every text: when the filename pattern
  finds nothing the filename is \<open>docs/ONBOARDING.md\<close>; when the content pattern finds
  nothing the result has the status \<open>pending_content\<close> and the filename, and no error;
  when both find something the result has the status \<open>ready\<close>, the filename found and
  the content found.
\<close>

lemma create_file_branch:
  "(re_search filename_pattern t = None \<longrightarrow>
      (\<exists>r. execute_tool (u ''create_file'') cid t w a = Inr r
           \<and> map_of r ''filename'' = Some (F_str (u ''docs/ONBOARDING.md''))))
   \<and> (re_search content_pattern t = None \<longrightarrow>
      execute_tool (u ''create_file'') cid t w a =
        Inr [(''tool'', F_str (u ''create_file'')),
             (''status'', F_str (u ''pending_content'')),
             (''filename'', F_str (case re_search filename_pattern t of
                                     Some f \<Rightarrow> f | None \<Rightarrow> u ''docs/ONBOARDING.md'')),
             (''message'', F_str (u ''Please provide the content for '' @
                                   (case re_search filename_pattern t of
                                      Some f \<Rightarrow> f | None \<Rightarrow> u ''docs/ONBOARDING.md'')))])
   \<and> (re_search filename_pattern t = Some f \<and> re_search content_pattern t = Some b \<longrightarrow>
      execute_tool (u ''create_file'') cid t w a =
        Inr [(''tool'', F_str (u ''create_file'')),
             (''status'', F_str (u ''ready'')),
             (''filename'', F_str f),
             (''content'', F_str b),
             (''message'', F_str (u ''File creation request prepared: '' @ f))])"
proof (intro conjI impI)
  assume "re_search filename_pattern t = None"
  then show "\<exists>r. execute_tool (u ''create_file'') cid t w a = Inr r
           \<and> map_of r ''filename'' = Some (F_str (u ''docs/ONBOARDING.md''))"
    by (simp add: execute_tool_def handle_create_file_def Let_def)
next
  assume "re_search content_pattern t = None"
  then show "execute_tool (u ''create_file'') cid t w a =
        Inr [(''tool'', F_str (u ''create_file'')),
             (''status'', F_str (u ''pending_content'')),
             (''filename'', F_str (case re_search filename_pattern t of
                                     Some f \<Rightarrow> f | None \<Rightarrow> u ''docs/ONBOARDING.md'')),
             (''message'', F_str (u ''Please provide the content for '' @
                                   (case re_search filename_pattern t of
                                      Some f \<Rightarrow> f | None \<Rightarrow> u ''docs/ONBOARDING.md'')))]"
    by (simp add: execute_tool_def Let_def)
next
  assume h: "re_search filename_pattern t = Some f \<and> re_search content_pattern t = Some b"
  then have "b \<noteq> []" using content_match_nonempty by blast
  with h show "execute_tool (u ''create_file'') cid t w a =
        Inr [(''tool'', F_str (u ''create_file'')),
             (''status'', F_str (u ''ready'')),
             (''filename'', F_str f),
             (''content'', F_str b),
             (''message'', F_str (u ''File creation request prepared: '' @ f))]"
    by (simp add: execute_tool_def handle_create_file_def Let_def)
qed

text \<open>
  The labels are read as \<open>re\<close> reads them: a no-break space (U+00A0) after a label
  separates it from its value, and the long s (U+017F) is an \<open>s\<close> when case is
  ignored.
\<close>

lemma labels_beyond_ascii:
  "re_search filename_pattern (u ''filename'' @ [0xA0] @ u ''x.md'') = Some (u ''x.md'')
   \<and> re_search content_pattern (u ''content:'' @ [0xA0, 39] @ u ''hi'' @ [39]) = Some (u ''hi'')
   \<and> re_search (hours_pattern example_unicode) (u ''hour'' @ [0x17F] @ u '' 12'') = Some (u ''12'')"
  by code_simp

text \<open>
  C4 at a concrete call: on the text \<open>@create_file\<close> the body of \<open>execute_tool\<close>
  gives the result \<open>pending_content\<close> with \<open>docs/ONBOARDING.md\<close>, and on a text
  with both labels the result \<open>ready\<close>; a caller of the module as it is gets neither:
  the import raises \<open>SyntaxError\<close> for the parameter list of
  \<open>handle_get_recent_context\<close>.
\<close>

theorem create_file_is_not_importable:
  "execute_tool (u ''create_file'') (u ''client1'') (u ''@create_file'')
       (example_tools 0 (Returns [])) (u ''asst1'')
     = Inr [(''tool'', F_str (u ''create_file'')),
            (''status'', F_str (u ''pending_content'')),
            (''filename'', F_str (u ''docs/ONBOARDING.md'')),
            (''message'', F_str (u ''Please provide the content for docs/ONBOARDING.md''))]
   \<and> execute_tool (u ''create_file'') (u ''client1'')
       (u ''@create_file filename: '' @ [34] @ u ''docs/a.md'' @ [34] @ u '' content: ''
          @ [34] @ u ''hello'' @ [34])
       (example_tools 0 (Returns [])) (u ''asst1'')
     = Inr [(''tool'', F_str (u ''create_file'')),
            (''status'', F_str (u ''ready'')),
            (''filename'', F_str (u ''docs/a.md'')),
            (''content'', F_str (u ''hello'')),
            (''message'', F_str (u ''File creation request prepared: docs/a.md''))]
   \<and> tools_call (execute_tool (u ''create_file'') (u ''client1'') (u ''@create_file'')
       (example_tools 0 (Returns [])) (u ''asst1''))
     = Inl (SyntaxError ''non-default argument follows default argument'')"
proof -
  let ?t = "u ''@create_file filename: '' @ [34] @ u ''docs/a.md'' @ [34] @ u '' content: ''
          @ [34] @ u ''hello'' @ [34]"
  have f0: "re_search filename_pattern (u ''@create_file'') = None" by code_simp
  have c0: "re_search content_pattern (u ''@create_file'') = None" by code_simp
  have f1: "re_search filename_pattern ?t = Some (u ''docs/a.md'')" by code_simp
  have c1: "re_search content_pattern ?t = Some (u ''hello'')" by code_simp
  have a: "execute_tool (u ''create_file'') (u ''client1'') (u ''@create_file'')
       (example_tools 0 (Returns [])) (u ''asst1'')
     = Inr [(''tool'', F_str (u ''create_file'')),
            (''status'', F_str (u ''pending_content'')),
            (''filename'', F_str (u ''docs/ONBOARDING.md'')),
            (''message'', F_str (u ''Please provide the content for docs/ONBOARDING.md''))]"
    using create_file_branch [where t = "u ''@create_file''"] f0 c0 by (simp add: u_def)
  have b: "execute_tool (u ''create_file'') (u ''client1'') ?t
       (example_tools 0 (Returns [])) (u ''asst1'')
     = Inr [(''tool'', F_str (u ''create_file'')),
            (''status'', F_str (u ''ready'')),
            (''filename'', F_str (u ''docs/a.md'')),
            (''content'', F_str (u ''hello'')),
            (''message'', F_str (u ''File creation request prepared: docs/a.md''))]"
    using create_file_branch [where t = ?t and f = "u ''docs/a.md''" and b = "u ''hello''"] f1 c1 by (simp add: u_def)
  from a b show ?thesis by (simp add: tools_call_fails)
qed

subsection \<open>The claims on errors\<close>

lemma recent_context_body_status:
  "recent_context_body h w a = Inr r \<Longrightarrow> map_of r ''status'' = Some (F_str (u ''success''))"
  by (auto simp: recent_context_body_def split: sum.splits)

lemma mermaid_body_status:
  "mermaid_body tp w a = Inr r \<Longrightarrow> map_of r ''status'' = Some (F_str (u ''success''))"
  by (auto simp: mermaid_body_def split: sum.splits)

lemma handle_get_recent_context_status:
  "map_of (handle_get_recent_context cid h w a) ''status'' = Some (F_str (u ''success''))
   \<or> map_of (handle_get_recent_context cid h w a) ''status'' = Some (F_str (u ''error''))"
  by (cases "recent_context_body h w a")
     (simp_all add: handle_get_recent_context_def recent_context_body_status)

lemma handle_generate_mermaid_graph_status:
  "map_of (handle_generate_mermaid_graph cid tp w a) ''status'' = Some (F_str (u ''success''))
   \<or> map_of (handle_generate_mermaid_graph cid tp w a) ''status'' = Some (F_str (u ''error''))"
  by (cases "mermaid_body tp w a")
     (simp_all add: handle_generate_mermaid_graph_def mermaid_body_status)

text \<open>
  What the \<open>except Exception\<close> of the two handlers gives for an exception of their
  body.
\<close>

lemma handlers_catch:
  "(recent_context_body h w a = Inl e \<longrightarrow>
      handle_get_recent_context cid h w a =
        [(''tool'', F_str (u ''get_recent_context'')), (''status'', F_str (u ''error'')), (''error'', F_exc e)])
   \<and> (mermaid_body tp w a = Inl e \<longrightarrow>
      handle_generate_mermaid_graph cid tp w a =
        [(''tool'', F_str (u ''generate_mermaid_graph'')), (''status'', F_str (u ''error'')), (''error'', F_exc e)])"
  by (simp add: handle_get_recent_context_def handle_generate_mermaid_graph_def)

text \<open>
  The body of \<open>execute_tool\<close> raises in one case only: the tool is
  \<open>get_recent_context\<close> and the digits after the \<open>hours\<close> label are more than
  \<open>int\<close> converts. Otherwise it returns a result with a \<open>status\<close>, which for a name
  other than the three tools is the error \<open>Unknown tool\<close>.
\<close>

lemma execute_tool_raises_iff:
  "(execute_tool n cid t w a = Inl e) =
     (n = u ''get_recent_context''
      \<and> (\<exists>g. re_search (hours_pattern (unicode_data w)) t = Some g
             \<and> 0 < int_max_str_digits w \<and> int_max_str_digits w < length g)
      \<and> e = ValueError ''Exceeds the limit for integer string conversion'')"
  by (auto simp: execute_tool_def py_int_def Let_def u_def split: option.splits if_splits)

lemma execute_tool_status:
  assumes "execute_tool n cid t w a = Inr r"
  shows "\<exists>s. map_of r ''status'' = Some (F_str (u s))
       \<and> s \<in> set [''success'', ''error'', ''pending_content'', ''ready'']"
proof -
  consider "n = u ''create_file''" | "n = u ''get_recent_context''" | "n = u ''generate_mermaid_graph''"
    | "n \<noteq> u ''create_file''" "n \<noteq> u ''get_recent_context''" "n \<noteq> u ''generate_mermaid_graph''"
    by blast
  then show ?thesis
  proof cases
    case 1
    with assms show ?thesis
      by (auto simp: execute_tool_def handle_create_file_def Let_def split: if_splits)
  next
    case 2
    with assms obtain h where "r = handle_get_recent_context cid h w a"
      by (auto simp: execute_tool_def u_def split: option.splits sum.splits)
    with handle_get_recent_context_status [of cid h w a] show ?thesis by auto
  next
    case 3
    with assms obtain tp where "r = handle_generate_mermaid_graph cid tp w a"
      by (auto simp: execute_tool_def Let_def u_def)
    with handle_generate_mermaid_graph_status [of cid tp w a] show ?thesis by auto
  next
    case 4
    with assms show ?thesis by (auto simp: execute_tool_def)
  qed
qed

lemma execute_tool_unknown:
  "n \<noteq> u ''create_file'' \<Longrightarrow> n \<noteq> u ''get_recent_context'' \<Longrightarrow> n \<noteq> u ''generate_mermaid_graph'' \<Longrightarrow>
   execute_tool n cid t w a =
     Inr [(''tool'', F_str n), (''status'', F_str (u ''error'')), (''error'', F_str (u ''Unknown tool: '' @ n))]"
  by (simp add: execute_tool_def)

lemma list_all_replicate: "list_all p (replicate k x) = (k = 0 \<or> p x)"
  by (induction k) auto

lemma hours_search_skip:
  "\<not> ignore_case_eq 104 c \<Longrightarrow> re_search (hours_pattern ucd) (c # cs) = re_search (hours_pattern ucd) cs"
  by (simp add: hours_pattern_def ignore_case_def u_def)

lemma hours_search_prefix:
  "list_all (\<lambda>c. \<not> ignore_case_eq 104 c) pre \<Longrightarrow>
   re_search (hours_pattern ucd) (pre @ s) = re_search (hours_pattern ucd) s"
proof (induction pre)
  case Nil
  show ?case by simp
next
  case (Cons c cs)
  then have "re_search (hours_pattern ucd) (c # (cs @ s)) = re_search (hours_pattern ucd) (cs @ s)"
    by (intro hours_search_skip) simp
  with Cons show ?case by (simp del: re_search.simps)
qed

lemma hours_match_in_invocation:
  assumes "ds \<noteq> []" and "list_all ascii_digit ds"
  shows "re_search (hours_pattern ucd) (u ''@get_recent_context hours: '' @ ds) = Some ds"
proof -
  have n: "list_all (\<lambda>c. \<not> ignore_case_eq 104 c) (u ''@get_recent_context '')"
    by (simp add: u_def ignore_case_eq_def ascii_lower_def)
  have "u ''@get_recent_context hours: '' @ ds = u ''@get_recent_context '' @ (u ''hours: '' @ ds)"
    by (simp add: u_def)
  then show ?thesis
    using hours_search_prefix [OF n, of ucd "u ''hours: '' @ ds"] hours_match_digits [OF assms, of ucd]
    by simp
qed

text \<open>
  C8 at a concrete call: on the text \<open>@get_recent_context hours: 99...9\<close> with 4301
  digits, the conversion \<open>int(hours_match.group(1))\<close> of line 318 raises
  \<open>ValueError\<close> outside every \<open>try\<close>, and \<open>execute_tool\<close> lets it through to its
  caller. The body of \<open>execute_tool\<close> gives the error result \<open>Unknown tool: deploy\<close>
  for the name \<open>deploy\<close>, and turns a failure of \<open>get_memories\<close> into an error
  result; a caller of the module as it is gets neither: the import raises
  \<open>SyntaxError\<close> for the parameter list of \<open>handle_get_recent_context\<close>.
\<close>

theorem execute_tool_propagates_exception:
  "execute_tool (u ''get_recent_context'') (u ''client1'')
       (u ''@get_recent_context hours: '' @ replicate 4301 57)
       (example_tools 0 (Returns [])) (u ''asst1'')
     = Inl (ValueError ''Exceeds the limit for integer string conversion'')
   \<and> execute_tool (u ''deploy'') (u ''client1'') (u ''@deploy now'')
       (example_tools 0 (Returns [])) (u ''asst1'')
     = Inr [(''tool'', F_str (u ''deploy'')), (''status'', F_str (u ''error'')),
            (''error'', F_str (u ''Unknown tool: deploy''))]
   \<and> execute_tool (u ''get_recent_context'') (u ''client1'') (u ''@get_recent_context'')
       (example_tools 0 (Raises (OtherError ''connection reset''))) (u ''asst1'')
     = Inr [(''tool'', F_str (u ''get_recent_context'')), (''status'', F_str (u ''error'')),
            (''error'', F_exc (OtherError ''connection reset''))]
   \<and> tools_call (execute_tool (u ''deploy'') (u ''client1'') (u ''@deploy now'')
       (example_tools 0 (Returns [])) (u ''asst1''))
     = Inl (SyntaxError ''non-default argument follows default argument'')"
proof -
  define ds where "ds = replicate 4301 (57::nat)"
  have l: "length ds = 4301" by (simp add: ds_def)
  then have ne: "ds \<noteq> []" by auto
  have dg: "list_all ascii_digit ds" by (simp add: ds_def list_all_replicate ascii_digit_def)
  have s: "re_search (hours_pattern example_unicode) (u ''@get_recent_context hours: '' @ ds) = Some ds"
    using ne dg by (rule hours_match_in_invocation)
  have a: "execute_tool (u ''get_recent_context'') (u ''client1'')
       (u ''@get_recent_context hours: '' @ ds)
       (example_tools 0 (Returns [])) (u ''asst1'')
     = Inl (ValueError ''Exceeds the limit for integer string conversion'')"
    unfolding execute_tool_raises_iff using s l by (simp add: example_tools_def)
  have b: "execute_tool (u ''deploy'') (u ''client1'') (u ''@deploy now'')
       (example_tools 0 (Returns [])) (u ''asst1'')
     = Inr [(''tool'', F_str (u ''deploy'')), (''status'', F_str (u ''error'')),
            (''error'', F_str (u ''Unknown tool: deploy''))]"
    by (simp add: execute_tool_def u_def)
  have n: "re_search (hours_pattern example_unicode) (u ''@get_recent_context'') = None" by code_simp
  have c: "execute_tool (u ''get_recent_context'') (u ''client1'') (u ''@get_recent_context'')
       (example_tools 0 (Raises (OtherError ''connection reset''))) (u ''asst1'')
     = Inr [(''tool'', F_str (u ''get_recent_context'')), (''status'', F_str (u ''error'')),
            (''error'', F_exc (OtherError ''connection reset''))]"
    using n by (simp add: execute_tool_def handle_get_recent_context_def recent_context_body_def
        fetch_memories_def example_tools_def u_def)
  from a b c show ?thesis unfolding ds_def by (simp add: tools_call_fails)
qed

subsection \<open>The buckets of \<open>get_recent_context\<close>\<close>









lemmas example_eval =
  example_tools_def datetime_def hours_us_def example_memories_def edge_memories_def memory_def
  py_get_def u_def str_replace_def

lemmas handler_eval =
  handle_get_recent_context_def recent_context_body_def fetch_memories_def cutoff_time_def
  datetime_max_def group_memory_def bucket_entry_def preview_def py_lower_def lower_def
  ascii_lower_def example_unicode_def Let_def

lemmas moment_eval =
  ingested_moment_def now_moment_def parsed_timestamp_def metadata_of_def


text \<open>
  The same call where the local clock is eight hours behind UTC: the cutoff is the local
  reading less 24 hours, the timestamps are read as they are written, in UTC, and the
  telegram memory ingested 30 hours before the call is in its bucket.
\<close>

lemma clock_behind_utc_keeps_old_entry:
  "map_of (handle_get_recent_context (u ''client1'') 24 (example_tools (- 8) (Returns example_memories)) (u ''asst1''))
      ''context''
     = Some (F_context
         \<lparr>telegram = [Memory_entry (u ''decision...'') (u ''2026-01-01T06:00:00Z'') (JStr (u ''m2''))],
          drive = [Memory_entry (u ''spec v2...'') (u ''2026-01-02T11:00:00Z'') (JStr (u ''m1''))],
          github = []\<rparr>)
   \<and> ingested_moment (example_tools (- 8) (Returns example_memories)) (example_memories ! 1)
       = Some (now_moment (example_tools (- 8) (Returns example_memories)) - hours_us 30)"
  by (simp add: example_eval handler_eval moment_eval)




end
